theory Spec2Isabelle
  imports Main "HOL-Library.Word"
begin

section \<open>Kernel API for joining and leaving multicast groups and for multicast routes\<close>

text \<open>
  A shallow embedding of \<^verbatim>\<open>src/kern.c\<close>: the three public operations
  \<^verbatim>\<open>kern_join_leave\<close>, \<^verbatim>\<open>kern_mroute4\<close> and \<^verbatim>\<open>kern_mroute6\<close> and the two
  alternative bodies of the static helper \<^verbatim>\<open>group_req\<close>.

  Everything the C code does besides returning a value is written out: the log lines passed
  to \<^verbatim>\<open>smclog\<close>, the \<^verbatim>\<open>setsockopt\<close> calls and the calls to \<^verbatim>\<open>mrdisc_enable\<close> and
  \<^verbatim>\<open>mrdisc_disable\<close> are appended, in program order, to a trace carried by an explicit
  world state, next to \<^verbatim>\<open>errno\<close>. The preprocessor symbols that select code at build time
  are fields of a record, so that one model covers every build.
\<close>

subsection \<open>Addresses\<close>

datatype sa_family = AF_INET | AF_INET6 | AF_UNSPEC

type_synonym in_addr = "32 word"
type_synonym in6_addr = "128 word"

text \<open>
  \<^verbatim>\<open>inet_addr_t\<close> is a socket address storage: a family tag and the address bits. An IPv4
  address occupies the low 32 bits.
\<close>

record inet_addr =
  ss_family :: sa_family
  ss_addr :: "128 word"

text \<open>
  Modelled from the spec: \<^verbatim>\<open>is_anyaddr\<close> is declared in a header that is not part of
  \<^verbatim>\<open>kern.c\<close>. The spec's \<open>is_any\<close>: true when the address is the all-zeros
  "unspecified" value.
\<close>

definition is_anyaddr :: "inet_addr \<Rightarrow> bool" where
  "is_anyaddr a = (ss_addr a = 0)"

text \<open>
  Modelled from the spec: \<^verbatim>\<open>inet_addr_get\<close> and \<^verbatim>\<open>inet_addr6_get\<close> are declared in a
  header that is not part of \<^verbatim>\<open>kern.c\<close>. The spec's \<open>to_wire\<close>: extracts the raw 32-bit
  or 128-bit address value appropriate to the destination structure.
\<close>

definition inet_addr_get :: "inet_addr \<Rightarrow> in_addr" where
  "inet_addr_get a = ucast (ss_addr a)"

definition inet_addr6_get :: "inet_addr \<Rightarrow> in6_addr" where
  "inet_addr6_get a = ss_addr a"

subsection \<open>The caller's structures\<close>

record iface =
  ifindex :: int
  inaddr :: in_addr

text \<open>\<^verbatim>\<open>struct mcgroup\<close>; \<^verbatim>\<open>mcg->iface\<close> is a pointer that the code only reads through.\<close>

record mcgroup =
  iface :: iface
  source :: inet_addr
  group :: inet_addr
  len :: int

text \<open>
  \<^verbatim>\<open>struct mroute\<close>. Its fields \<^verbatim>\<open>source\<close> and \<^verbatim>\<open>group\<close> carry the prefix \<open>route_\<close>
  here, since a field name is a constant of the theory. \<^verbatim>\<open>ttl\<close> is a C array of bytes:
  the list's length is the array's number of elements.
\<close>

record mroute =
  route_source :: inet_addr
  route_group :: inet_addr
  inbound :: int
  ttl :: "8 word list"

subsection \<open>The kernel's structures and options\<close>

datatype ipproto = IPPROTO_IP | IPPROTO_IPV6

datatype optname =
    MCAST_JOIN_GROUP | MCAST_LEAVE_GROUP
  | MCAST_JOIN_SOURCE_GROUP | MCAST_LEAVE_SOURCE_GROUP
  | IPV6_JOIN_GROUP | IPV6_LEAVE_GROUP
  | IP_ADD_MEMBERSHIP | IP_DROP_MEMBERSHIP
  | MRT_ADD_MFC | MRT_DEL_MFC
  | MRT6_ADD_MFC | MRT6_DEL_MFC

record mfcctl =
  mfcc_origin :: in_addr
  mfcc_mcastgrp :: in_addr
  mfcc_parent :: int
  mfcc_ttls :: "8 word list"

text \<open>
  The interface set \<^verbatim>\<open>struct if_set\<close> is a bit vector of \<^verbatim>\<open>IF_SETSIZE\<close> bits,
  one per interface index. \<^verbatim>\<open>IF_ZERO\<close> clears every bit, \<^verbatim>\<open>IF_SET\<close> sets one,
  \<^verbatim>\<open>IF_ISSET\<close> reads one.
\<close>

type_synonym if_set = "bool list"

definition IF_ZERO :: "if_set \<Rightarrow> if_set" where
  "IF_ZERO s = replicate (length s) False"

definition IF_SET :: "nat \<Rightarrow> if_set \<Rightarrow> if_set" where
  "IF_SET n s = s[n := True]"

definition IF_ISSET :: "nat \<Rightarrow> if_set \<Rightarrow> bool" where
  "IF_ISSET n s = (n < length s \<and> s ! n)"

record mf6cctl =
  mf6cc_origin :: in6_addr
  mf6cc_mcastgrp :: in6_addr
  mf6cc_parent :: int
  mf6cc_ifset :: if_set

text \<open>
  The option value handed to \<^verbatim>\<open>setsockopt\<close>, one constructor per C structure, the
  arguments in the order the code assigns the fields:
  \<^item> \<open>Group_req gr_interface gr_group\<close>;
  \<^item> \<open>Group_source_req gsr_interface gsr_source gsr_group\<close>;
  \<^item> \<open>Ipv6_mreq ipv6mr_multiaddr ipv6mr_interface\<close>;
  \<^item> \<open>Ip_mreqn imr_multiaddr imr_ifindex\<close> (the code assigns no other field);
  \<^item> \<open>Ip_mreq imr_multiaddr imr_interface\<close>.
  The length argument is the size of the structure and is left out.
\<close>

datatype optval =
    Group_req int inet_addr
  | Group_source_req int inet_addr inet_addr
  | Ipv6_mreq in6_addr int
  | Ip_mreqn in_addr int
  | Ip_mreq in_addr in_addr
  | Mfcctl mfcctl
  | Mf6cctl mf6cctl

subsection \<open>The world: errno and the trace of effects\<close>

datatype severity = LOG_ERR | LOG_WARNING | LOG_DEBUG

text \<open>An argument of a format string: a string (\<^verbatim>\<open>%s\<close>) or an integer (\<^verbatim>\<open>%d\<close>).\<close>

datatype fmt_arg = S string | D int

datatype event =
    Smclog severity string "fmt_arg list"
  | Setsockopt int ipproto optname optval
  | Mrdisc_enable int
  | Mrdisc_disable int

record world =
  errno :: int
  trace :: "event list"

text \<open>
  What a build and its platform fix: the three configuration symbols tested by
  \<^verbatim>\<open>#ifdef\<close>, the number of elements of \<^verbatim>\<open>mfcc_ttls\<close> (\<^verbatim>\<open>MAXVIFS\<close>), the number of
  bits of an interface set (\<^verbatim>\<open>IF_SETSIZE\<close>), and the collaborators the code calls:
  the text rendering of an address and of an error number, and the kernel's answer to a
  \<^verbatim>\<open>setsockopt\<close> call (\<open>None\<close>: success, the call returns 0; \<open>Some e\<close>: the call returns
  -1 and sets \<^verbatim>\<open>errno\<close> to \<open>e\<close>).
\<close>

record platform =
  HAVE_STRUCT_GROUP_REQ :: bool
  HAVE_IPV6_MULTICAST_HOST :: bool
  HAVE_STRUCT_IP_MREQN :: bool
  MAXVIFS :: nat
  IF_SETSIZE :: nat
  inet_addr2str :: "inet_addr \<Rightarrow> string"
  strerror :: "int \<Rightarrow> string"
  sys_setsockopt :: "int \<Rightarrow> ipproto \<Rightarrow> optname \<Rightarrow> optval \<Rightarrow> int option"

definition ENOENT :: int where
  "ENOENT = 2"

definition smclog :: "severity \<Rightarrow> string \<Rightarrow> fmt_arg list \<Rightarrow> world \<Rightarrow> world" where
  "smclog lvl fmt args w = w\<lparr>trace := trace w @ [Smclog lvl fmt args]\<rparr>"

definition setsockopt ::
  "platform \<Rightarrow> int \<Rightarrow> ipproto \<Rightarrow> optname \<Rightarrow> optval \<Rightarrow> world \<Rightarrow> int \<times> world" where
  "setsockopt p sd proto op arg w =
     (let w' = w\<lparr>trace := trace w @ [Setsockopt sd proto op arg]\<rparr>
      in case sys_setsockopt p sd proto op arg of
           None \<Rightarrow> (0, w')
         | Some e \<Rightarrow> (- 1, w'\<lparr>errno := e\<rparr>))"

definition mrdisc_enable :: "int \<Rightarrow> world \<Rightarrow> world" where
  "mrdisc_enable vif w = w\<lparr>trace := trace w @ [Mrdisc_enable vif]\<rparr>"

definition mrdisc_disable :: "int \<Rightarrow> world \<Rightarrow> world" where
  "mrdisc_disable vif w = w\<lparr>trace := trace w @ [Mrdisc_disable vif]\<rparr>"

text \<open>What a test's spy sees of a trace: the kernel calls, the discovery calls, the log.\<close>

fun is_kernel_call :: "event \<Rightarrow> bool" where
  "is_kernel_call (Setsockopt sd proto op arg) = True"
| "is_kernel_call ev = False"

fun is_mrdisc_call :: "event \<Rightarrow> bool" where
  "is_mrdisc_call (Mrdisc_enable vif) = True"
| "is_mrdisc_call (Mrdisc_disable vif) = True"
| "is_mrdisc_call ev = False"

fun is_log :: "event \<Rightarrow> bool" where
  "is_log (Smclog lvl fmt args) = True"
| "is_log ev = False"

definition kernel_calls :: "event list \<Rightarrow> event list" where
  "kernel_calls evs = filter is_kernel_call evs"

definition mrdisc_calls :: "event list \<Rightarrow> event list" where
  "mrdisc_calls evs = filter is_mrdisc_call evs"

definition log_lines :: "event list \<Rightarrow> event list" where
  "log_lines evs = filter is_log evs"

subsection \<open>group_req\<close>

text \<open>The command characters: \<^verbatim>\<open>'j'\<close> is 106 and \<^verbatim>\<open>'a'\<close> is 97.\<close>

definition chr_j :: int where
  "chr_j = of_char CHR ''j''"

definition chr_a :: int where
  "chr_a = of_char CHR ''a''"

text \<open>The body compiled when \<^verbatim>\<open>HAVE_STRUCT_GROUP_REQ\<close> is defined (RFC 3678).\<close>

definition group_req_rfc3678 ::
  "platform \<Rightarrow> int \<Rightarrow> int \<Rightarrow> mcgroup \<Rightarrow> world \<Rightarrow> int \<times> world" where
  "group_req_rfc3678 p sd cmd mcg w =
     (let proto = (if HAVE_IPV6_MULTICAST_HOST p \<and> ss_family (group mcg) = AF_INET6
                   then IPPROTO_IPV6 else IPPROTO_IP);
          (op, src, grp, arg) =
            (if is_anyaddr (source mcg)
             then (if cmd = chr_j then MCAST_JOIN_GROUP else MCAST_LEAVE_GROUP,
                   ''*'',
                   inet_addr2str p (group mcg),
                   Group_req (ifindex (iface mcg)) (group mcg))
             else (if cmd = chr_j then MCAST_JOIN_SOURCE_GROUP else MCAST_LEAVE_SOURCE_GROUP,
                   inet_addr2str p (source mcg),
                   inet_addr2str p (group mcg),
                   Group_source_req (ifindex (iface mcg)) (source mcg) (group mcg)));
          w1 = smclog LOG_DEBUG ''%s group (%s,%s) on ifindex %d and socket %d ...''
                 [S (if cmd = chr_j then ''Join'' else ''Leave''), S src, S grp,
                  D (ifindex (iface mcg)), D sd] w
      in setsockopt p sd proto op arg w1)"

text \<open>The body compiled otherwise (old style \<^verbatim>\<open>struct ip_mreq\<close>).\<close>

definition group_req_legacy ::
  "platform \<Rightarrow> int \<Rightarrow> int \<Rightarrow> mcgroup \<Rightarrow> world \<Rightarrow> int \<times> world" where
  "group_req_legacy p sd cmd mcg w =
     (let (proto, op, arg) =
            (if HAVE_IPV6_MULTICAST_HOST p \<and> ss_family (group mcg) = AF_INET6
             then (IPPROTO_IPV6,
                   if cmd = chr_j then IPV6_JOIN_GROUP else IPV6_LEAVE_GROUP,
                   Ipv6_mreq (inet_addr6_get (group mcg)) (ifindex (iface mcg)))
             else (IPPROTO_IP,
                   if cmd = chr_j then IP_ADD_MEMBERSHIP else IP_DROP_MEMBERSHIP,
                   if HAVE_STRUCT_IP_MREQN p
                   then Ip_mreqn (inet_addr_get (group mcg)) (ifindex (iface mcg))
                   else Ip_mreq (inet_addr_get (group mcg)) (inaddr (iface mcg))));
          w1 = smclog LOG_DEBUG ''%s group (*,%s) on ifindex %d ...''
                 [S (if cmd = chr_j then ''Join'' else ''Leave''),
                  S (inet_addr2str p (group mcg)), D (ifindex (iface mcg))] w
      in setsockopt p sd proto op arg w1)"

definition group_req :: "platform \<Rightarrow> int \<Rightarrow> int \<Rightarrow> mcgroup \<Rightarrow> world \<Rightarrow> int \<times> world" where
  "group_req p sd cmd mcg w =
     (if HAVE_STRUCT_GROUP_REQ p then group_req_rfc3678 p sd cmd mcg w
      else group_req_legacy p sd cmd mcg w)"

subsection \<open>kern_join_leave\<close>

definition kern_join_leave ::
  "platform \<Rightarrow> int \<Rightarrow> int \<Rightarrow> mcgroup \<Rightarrow> world \<Rightarrow> int \<times> world" where
  "kern_join_leave p sd cmd0 mcg w =
     (let cmd = (if cmd0 = 0 then chr_j else cmd0);
          (err, w1) = group_req p sd cmd mcg w
      in if err \<noteq> 0
         then
           (let src = (if \<not> is_anyaddr (source mcg) then inet_addr2str p (source mcg)
                       else ''*'');
                grp = inet_addr2str p (group mcg);
                n = (if len mcg = 0 then 32 else len mcg)
            in (1, smclog LOG_ERR ''Failed %s group (%s,%s/%d) on sd %d ... %d: %s''
                     [S (if cmd = chr_j then ''joining'' else ''leaving''),
                      S src, S grp, D n, D sd, D (errno w1), S (strerror p (errno w1))] w1))
         else (0, w1))"

subsection \<open>kern_mroute4\<close>

text \<open>
  Reading or writing a C array outside its bounds is undefined behaviour; the model
  stops there with a fault instead of inventing a value.
\<close>

datatype fault = Out_of_bounds

text \<open>
  The loop \<^verbatim>\<open>for (i = 0; i < NELEMS(mc.mfcc_ttls); i++) mc.mfcc_ttls[i] = route->ttl[i];\<close>
  from index \<open>i\<close> on: \<open>dst\<close> is \<^verbatim>\<open>mc.mfcc_ttls\<close>, \<open>src\<close> is \<^verbatim>\<open>route->ttl\<close>.
\<close>

function copy_ttls :: "nat \<Rightarrow> 8 word list \<Rightarrow> 8 word list \<Rightarrow> fault + 8 word list" where
  "copy_ttls i src dst =
     (if i < length dst
      then (if i < length src then copy_ttls (Suc i) src (dst[i := src ! i])
            else Inl Out_of_bounds)
      else Inr dst)"
  by pat_completeness auto
termination
  by (relation "measure (\<lambda>(i, src, dst). length dst - i)") auto

definition kern_mroute4 ::
  "platform \<Rightarrow> int \<Rightarrow> int \<Rightarrow> mroute \<Rightarrow> int \<Rightarrow> world \<Rightarrow> fault + int \<times> world" where
  "kern_mroute4 p sd cmd route active w =
     (let op = (if cmd = chr_a then MRT_ADD_MFC else MRT_DEL_MFC)
      in if sd = - 1
         then Inr (- 1, smclog LOG_DEBUG ''No IPv4 multicast socket'' [] w)
         else
           (let mc = \<lparr>mfcc_origin = inet_addr_get (route_source route),
                      mfcc_mcastgrp = inet_addr_get (route_group route),
                      mfcc_parent = inbound route,
                      mfcc_ttls = replicate (MAXVIFS p) 0\<rparr>;
                origin = inet_addr2str p (route_source route);
                grp = inet_addr2str p (route_group route)
            in case copy_ttls 0 (ttl route) (mfcc_ttls mc) of
                 Inl f \<Rightarrow> Inl f
               | Inr ttls \<Rightarrow>
                   (let (r, w1) = setsockopt p sd IPPROTO_IP op
                                    (Mfcctl (mc\<lparr>mfcc_ttls := ttls\<rparr>)) w
                    in if r \<noteq> 0
                       then
                         (if ENOENT = errno w1
                          then Inr (1, smclog LOG_DEBUG
                                 ''failed removing multicast route (%s,%s), does not exist.''
                                 [S origin, S grp] w1)
                          else Inr (1, smclog LOG_DEBUG
                                 ''failed %s IPv4 multicast route (%s,%s): %s''
                                 [S (if cmd = chr_a then ''adding'' else ''removing''),
                                  S origin, S grp, S (strerror p (errno w1))] w1))
                       else if active \<noteq> 0
                       then
                         (let w2 = smclog LOG_DEBUG ''%s %s -> %s from VIF %d''
                                     [S (if cmd = chr_a then ''Add'' else ''Del''),
                                      S origin, S grp, D (inbound route)] w1
                          in if cmd = chr_a
                             then Inr (0, mrdisc_enable (inbound route) w2)
                             else Inr (0, mrdisc_disable (inbound route) w2))
                       else Inr (0, w1))))"

subsection \<open>kern_mroute6\<close>

text \<open>
  The loop \<^verbatim>\<open>for (i = 0; i < NELEMS(route->ttl); i++) if (route->ttl[i]) IF_SET(i, &mc.mf6cc_ifset);\<close>
  from index \<open>i\<close> on. \<^verbatim>\<open>IF_SET\<close> writes into the set's storage, so an index that the set
  does not hold is a write out of bounds.
\<close>

function set_ifs :: "nat \<Rightarrow> 8 word list \<Rightarrow> if_set \<Rightarrow> fault + if_set" where
  "set_ifs i ttls ifset =
     (if i < length ttls
      then (if ttls ! i \<noteq> 0
            then (if i < length ifset then set_ifs (Suc i) ttls (IF_SET i ifset)
                  else Inl Out_of_bounds)
            else set_ifs (Suc i) ttls ifset)
      else Inr ifset)"
  by pat_completeness auto
termination
  by (relation "measure (\<lambda>(i, ttls, ifset). length ttls - i)") auto

definition kern_mroute6 ::
  "platform \<Rightarrow> int \<Rightarrow> int \<Rightarrow> mroute \<Rightarrow> world \<Rightarrow> fault + int \<times> world" where
  "kern_mroute6 p sd cmd route w =
     (let op = (if cmd = chr_a then MRT6_ADD_MFC else MRT6_DEL_MFC)
      in if sd < 0
         then Inr (- 1, smclog LOG_DEBUG ''No IPv6 multicast socket'' [] w)
         else
           (let mc = \<lparr>mf6cc_origin = inet_addr6_get (route_source route),
                      mf6cc_mcastgrp = inet_addr6_get (route_group route),
                      mf6cc_parent = inbound route,
                      mf6cc_ifset = replicate (IF_SETSIZE p) False\<rparr>;
                origin = inet_addr2str p (route_source route);
                grp = inet_addr2str p (route_group route)
            in case set_ifs 0 (ttl route) (IF_ZERO (mf6cc_ifset mc)) of
                 Inl f \<Rightarrow> Inl f
               | Inr ifset \<Rightarrow>
                   (let (r, w1) = setsockopt p sd IPPROTO_IPV6 op
                                    (Mf6cctl (mc\<lparr>mf6cc_ifset := ifset\<rparr>)) w
                    in if r \<noteq> 0
                       then
                         (if ENOENT = errno w1
                          then Inr (1, smclog LOG_DEBUG
                                 ''failed removing IPv6 multicast route (%s,%s), does not exist.''
                                 [S origin, S grp] w1)
                          else Inr (1, smclog LOG_WARNING
                                 ''failed %s IPv6 multicast route (%s,%s): %s''
                                 [S (if cmd = chr_a then ''adding'' else ''removing''),
                                  S origin, S grp, S (strerror p (errno w1))] w1))
                       else Inr (0, w1))))"

subsection \<open>Observations\<close>

text \<open>
  Every operation only appends to the trace. \<open>issued w w'\<close> is what was appended between
  the world \<open>w\<close> before a call and the world \<open>w'\<close> after it. \<open>kernel_errors\<close> lists, in
  order, the error numbers of the kernel calls among some events that the kernel refused.
\<close>

definition issued :: "world \<Rightarrow> world \<Rightarrow> event list" where
  "issued w w' = drop (length (trace w)) (trace w')"

fun call_errno :: "platform \<Rightarrow> event \<Rightarrow> int option" where
  "call_errno p (Setsockopt sd proto op arg) = sys_setsockopt p sd proto op arg"
| "call_errno p ev = None"

definition kernel_errors :: "platform \<Rightarrow> event list \<Rightarrow> int list" where
  "kernel_errors p evs = List.map_filter (call_errno p) evs"

subsection \<open>Example inputs\<close>

text \<open>
  Stand-ins for the collaborators, for evaluating the operations on concrete inputs: a
  rendering of an address that prints its family, a rendering of an error number, a kernel
  that accepts every call and one that refuses every call with a given error number.
\<close>

definition show_family :: "inet_addr \<Rightarrow> string" where
  "show_family a =
     (case ss_family a of AF_INET \<Rightarrow> ''ipv4'' | AF_INET6 \<Rightarrow> ''ipv6'' | AF_UNSPEC \<Rightarrow> ''unspec'')"

definition EBADF :: int where
  "EBADF = 9"

definition show_errno :: "int \<Rightarrow> string" where
  "show_errno e =
     (if e = ENOENT then ''No such file or directory''
      else if e = EBADF then ''Bad file descriptor''
      else ''Unknown error'')"

definition kernel_accepts :: "int \<Rightarrow> ipproto \<Rightarrow> optname \<Rightarrow> optval \<Rightarrow> int option" where
  "kernel_accepts sd proto op arg = None"

definition kernel_refuses :: "int \<Rightarrow> int \<Rightarrow> ipproto \<Rightarrow> optname \<Rightarrow> optval \<Rightarrow> int option" where
  "kernel_refuses e sd proto op arg = Some e"

text \<open>A build with the RFC 3678 structures, and the same build without them.\<close>

definition rfc3678_build :: platform where
  "rfc3678_build =
     \<lparr>HAVE_STRUCT_GROUP_REQ = True, HAVE_IPV6_MULTICAST_HOST = True,
      HAVE_STRUCT_IP_MREQN = True, MAXVIFS = 32, IF_SETSIZE = 256,
      inet_addr2str = show_family, strerror = show_errno,
      sys_setsockopt = kernel_accepts\<rparr>"

definition legacy_build :: platform where
  "legacy_build = rfc3678_build\<lparr>HAVE_STRUCT_GROUP_REQ := False\<rparr>"

definition world0 :: world where
  "world0 = \<lparr>errno = 0, trace = []\<rparr>"

text \<open>Group 225.1.2.3 on interface 2, from any source and from the source 10.0.0.1.\<close>

definition asm_request :: mcgroup where
  "asm_request =
     \<lparr>iface = \<lparr>ifindex = 2, inaddr = 0xC0A80001\<rparr>,
      source = \<lparr>ss_family = AF_INET, ss_addr = 0\<rparr>,
      group = \<lparr>ss_family = AF_INET, ss_addr = 0xE1010203\<rparr>,
      len = 0\<rparr>"

definition ssm_request :: mcgroup where
  "ssm_request = asm_request\<lparr>source := \<lparr>ss_family = AF_INET, ss_addr = 0x0A000001\<rparr>\<rparr>"

text \<open>
  Group ff15::1 on interface 2 from the source 2001:db8::1, and a build without the RFC 3678
  structures in which \<^verbatim>\<open>HAVE_IPV6_MULTICAST_HOST\<close> is not defined either.
\<close>

definition ssm_request6 :: mcgroup where
  "ssm_request6 =
     asm_request\<lparr>source := \<lparr>ss_family = AF_INET6,
                                ss_addr = 0x20010DB8000000000000000000000001\<rparr>,
                  group := \<lparr>ss_family = AF_INET6,
                               ss_addr = 0xFF150000000000000000000000000001\<rparr>\<rparr>"

definition legacy_build_no_ipv6 :: platform where
  "legacy_build_no_ipv6 = legacy_build\<lparr>HAVE_IPV6_MULTICAST_HOST := False\<rparr>"

text \<open>
  A route (10.0.0.1, 225.1.2.3) from interface 1 whose outbound vector is [0,5,0,3], and
  the same route with a vector of 34 elements, two more than the kernel's 32.
\<close>

definition route_0503 :: mroute where
  "route_0503 =
     \<lparr>route_source = \<lparr>ss_family = AF_INET, ss_addr = 0x0A000001\<rparr>,
      route_group = \<lparr>ss_family = AF_INET, ss_addr = 0xE1010203\<rparr>,
      inbound = 1,
      ttl = [0, 5, 0, 3]\<rparr>"

definition route_34 :: mroute where
  "route_34 = route_0503\<lparr>ttl := [0, 5, 0, 3] @ replicate 28 0 @ [7, 9]\<rparr>"

section \<open>Properties\<close>

lemma chr_j_106: "chr_j = 106"
  by (simp add: chr_j_def)

lemma chr_a_97: "chr_a = 97"
  by (simp add: chr_a_def)


lemmas copy_ttls_unfold = copy_ttls.simps
lemmas set_ifs_unfold = set_ifs.simps
declare copy_ttls.simps [simp del]
declare set_ifs.simps [simp del]

lemmas obs_defs = issued_def kernel_calls_def mrdisc_calls_def log_lines_def kernel_errors_def
  List.map_filter_def
lemmas eff_defs = smclog_def setsockopt_def mrdisc_enable_def mrdisc_disable_def
lemmas example_defs = rfc3678_build_def legacy_build_def world0_def asm_request_def
  ssm_request_def ssm_request6_def legacy_build_no_ipv6_def route_0503_def route_34_def kernel_accepts_def kernel_refuses_def
  show_family_def show_errno_def EBADF_def

subsection \<open>The two loops in closed form\<close>

lemma copy_ttls_from:
  "length dst \<le> length src \<Longrightarrow> i \<le> length dst \<Longrightarrow>
   copy_ttls i src dst = Inr (take i dst @ drop i (take (length dst) src))"
proof (induction i src dst rule: copy_ttls.induct)
  case (1 i src dst)
  show ?case
  proof (cases "i < length dst")
    case True
    with "1.prems" have lt: "i < length src" by simp
    have "copy_ttls i src dst = copy_ttls (Suc i) src (dst[i := src ! i])"
      using True lt by (subst copy_ttls_unfold) simp
    also have "\<dots> = Inr (take (Suc i) (dst[i := src ! i]) @ drop (Suc i) (take (length dst) src))"
      using "1.IH" [OF True lt] "1.prems" True by simp
    also have "take (Suc i) (dst[i := src ! i]) = take i dst @ [src ! i]"
      using True by (simp add: take_Suc_conv_app_nth)
    also have "(take i dst @ [src ! i]) @ drop (Suc i) (take (length dst) src)
               = take i dst @ drop i (take (length dst) src)"
      using True lt by (simp add: Cons_nth_drop_Suc [symmetric])
    finally show ?thesis .
  next
    case False
    with "1.prems" have "i = length dst" by simp
    then show ?thesis using False by (subst copy_ttls_unfold) simp
  qed
qed

lemma copy_ttls_fault:
  "length src < length dst \<Longrightarrow> i \<le> length src \<Longrightarrow> copy_ttls i src dst = Inl Out_of_bounds"
proof (induction i src dst rule: copy_ttls.induct)
  case (1 i src dst)
  show ?case
  proof (cases "i < length src")
    case True
    then show ?thesis using 1 by (subst copy_ttls_unfold) simp
  next
    case False
    then show ?thesis using "1.prems" by (subst copy_ttls_unfold) simp
  qed
qed

lemma set_ifs_from:
  "length ttls \<le> length ifset \<Longrightarrow>
   set_ifs i ttls ifset =
     Inr (map (\<lambda>n. ifset ! n \<or> (i \<le> n \<and> n < length ttls \<and> ttls ! n \<noteq> 0)) [0..<length ifset])"
proof (induction i ttls ifset rule: set_ifs.induct)
  case (1 i ttls ifset)
  show ?case
  proof (cases "i < length ttls")
    case False
    then have "set_ifs i ttls ifset = Inr ifset" by (subst set_ifs_unfold) simp
    moreover have "map (\<lambda>n. ifset ! n \<or> (i \<le> n \<and> n < length ttls \<and> ttls ! n \<noteq> 0)) [0..<length ifset] = ifset"
      using False by (intro nth_equalityI) auto
    ultimately show ?thesis by simp
  next
    case True
    note lt = True
    with "1.prems" have lt': "i < length ifset" by simp
    show ?thesis
    proof (cases "ttls ! i \<noteq> 0")
      case True
      have "set_ifs i ttls ifset = set_ifs (Suc i) ttls (IF_SET i ifset)"
        using lt lt' True by (subst set_ifs_unfold) simp
      also have "\<dots> = Inr (map (\<lambda>n. IF_SET i ifset ! n \<or> (Suc i \<le> n \<and> n < length ttls \<and> ttls ! n \<noteq> 0)) [0..<length (IF_SET i ifset)])"
        using "1.IH"(1) [OF lt True lt'] "1.prems" by (simp add: IF_SET_def)
      also have "map (\<lambda>n. IF_SET i ifset ! n \<or> (Suc i \<le> n \<and> n < length ttls \<and> ttls ! n \<noteq> 0)) [0..<length (IF_SET i ifset)]
               = map (\<lambda>n. ifset ! n \<or> (i \<le> n \<and> n < length ttls \<and> ttls ! n \<noteq> 0)) [0..<length ifset]"
        using lt lt' True by (intro nth_equalityI) (auto simp: IF_SET_def nth_list_update Suc_le_eq le_less)
      finally show ?thesis .
    next
      case False
      have "set_ifs i ttls ifset = set_ifs (Suc i) ttls ifset"
        using lt False by (subst set_ifs_unfold) simp
      also have "\<dots> = Inr (map (\<lambda>n. ifset ! n \<or> (Suc i \<le> n \<and> n < length ttls \<and> ttls ! n \<noteq> 0)) [0..<length ifset])"
        using "1.IH"(2) [OF lt False] "1.prems" by simp
      also have "map (\<lambda>n. ifset ! n \<or> (Suc i \<le> n \<and> n < length ttls \<and> ttls ! n \<noteq> 0)) [0..<length ifset]
               = map (\<lambda>n. ifset ! n \<or> (i \<le> n \<and> n < length ttls \<and> ttls ! n \<noteq> 0)) [0..<length ifset]"
        using False by (intro nth_equalityI) (auto simp: Suc_le_eq le_less)
      finally show ?thesis .
    qed
  qed
qed

subsection \<open>The forwarding-cache operations, path by path\<close>

lemma kern_mroute4_no_socket:
  "kern_mroute4 p (- 1) cmd route active w =
     Inr (- 1, smclog LOG_DEBUG ''No IPv4 multicast socket'' [] w)"
  by (simp add: kern_mroute4_def)

lemma kern_mroute4_fault:
  "sd \<noteq> - 1 \<Longrightarrow> length (ttl route) < MAXVIFS p \<Longrightarrow>
   kern_mroute4 p sd cmd route active w = Inl Out_of_bounds"
  by (simp add: kern_mroute4_def copy_ttls_fault)

lemma copy_ttls_take:
  "length dst \<le> length src \<Longrightarrow> copy_ttls 0 src dst = Inr (take (length dst) src)"
  by (simp add: copy_ttls_from)

lemma kern_mroute4_submit:
  assumes "sd \<noteq> - 1" and "MAXVIFS p \<le> length (ttl route)"
  shows "kern_mroute4 p sd cmd route active w =
     (let op = (if cmd = chr_a then MRT_ADD_MFC else MRT_DEL_MFC);
          mc = \<lparr>mfcc_origin = inet_addr_get (route_source route),
                 mfcc_mcastgrp = inet_addr_get (route_group route),
                 mfcc_parent = inbound route,
                 mfcc_ttls = take (MAXVIFS p) (ttl route)\<rparr>;
          origin = inet_addr2str p (route_source route);
          grp = inet_addr2str p (route_group route);
          w1 = w\<lparr>trace := trace w @ [Setsockopt sd IPPROTO_IP op (Mfcctl mc)]\<rparr>
      in case sys_setsockopt p sd IPPROTO_IP op (Mfcctl mc) of
           Some e \<Rightarrow>
             Inr (1, w1\<lparr>errno := e, trace := trace w1 @
               [if e = ENOENT
                then Smclog LOG_DEBUG ''failed removing multicast route (%s,%s), does not exist.''
                       [S origin, S grp]
                else Smclog LOG_DEBUG ''failed %s IPv4 multicast route (%s,%s): %s''
                       [S (if cmd = chr_a then ''adding'' else ''removing''),
                        S origin, S grp, S (strerror p e)]]\<rparr>)
         | None \<Rightarrow>
             Inr (0, if active \<noteq> 0
                     then w1\<lparr>trace := trace w1 @
                            [Smclog LOG_DEBUG ''%s %s -> %s from VIF %d''
                               [S (if cmd = chr_a then ''Add'' else ''Del''),
                                S origin, S grp, D (inbound route)],
                             if cmd = chr_a then Mrdisc_enable (inbound route)
                             else Mrdisc_disable (inbound route)]\<rparr>
                     else w1))"
  using assms
  by (simp add: kern_mroute4_def copy_ttls_take eff_defs Let_def split: option.split)

lemma kern_mroute6_no_socket:
  "sd < 0 \<Longrightarrow> kern_mroute6 p sd cmd route w =
     Inr (- 1, smclog LOG_DEBUG ''No IPv6 multicast socket'' [] w)"
  by (simp add: kern_mroute6_def)

lemma set_ifs_zero:
  "length ttls \<le> n \<Longrightarrow>
   set_ifs 0 ttls (IF_ZERO (replicate n False)) =
     Inr (map (\<lambda>i. i < length ttls \<and> ttls ! i \<noteq> 0) [0..<n])"
  by (simp add: set_ifs_from IF_ZERO_def)

lemma kern_mroute6_submit:
  assumes "0 \<le> sd" and "length (ttl route) \<le> IF_SETSIZE p"
  shows "kern_mroute6 p sd cmd route w =
     (let op = (if cmd = chr_a then MRT6_ADD_MFC else MRT6_DEL_MFC);
          mc = \<lparr>mf6cc_origin = inet_addr6_get (route_source route),
                 mf6cc_mcastgrp = inet_addr6_get (route_group route),
                 mf6cc_parent = inbound route,
                 mf6cc_ifset = map (\<lambda>i. i < length (ttl route) \<and> ttl route ! i \<noteq> 0)
                                 [0..<IF_SETSIZE p]\<rparr>;
          origin = inet_addr2str p (route_source route);
          grp = inet_addr2str p (route_group route);
          w1 = w\<lparr>trace := trace w @ [Setsockopt sd IPPROTO_IPV6 op (Mf6cctl mc)]\<rparr>
      in case sys_setsockopt p sd IPPROTO_IPV6 op (Mf6cctl mc) of
           Some e \<Rightarrow>
             Inr (1, w1\<lparr>errno := e, trace := trace w1 @
               [if e = ENOENT
                then Smclog LOG_DEBUG
                       ''failed removing IPv6 multicast route (%s,%s), does not exist.''
                       [S origin, S grp]
                else Smclog LOG_WARNING ''failed %s IPv6 multicast route (%s,%s): %s''
                       [S (if cmd = chr_a then ''adding'' else ''removing''),
                        S origin, S grp, S (strerror p e)]]\<rparr>)
         | None \<Rightarrow> Inr (0, w1))"
  using assms
  by (simp add: kern_mroute6_def set_ifs_zero eff_defs Let_def split: option.split)

subsection \<open>kern_join_leave, build by build\<close>

lemma group_req_rfc3678_asm:
  assumes "HAVE_STRUCT_GROUP_REQ p" and "is_anyaddr (source mcg)"
  shows "group_req p sd cmd mcg w =
    setsockopt p sd
      (if HAVE_IPV6_MULTICAST_HOST p \<and> ss_family (group mcg) = AF_INET6
       then IPPROTO_IPV6 else IPPROTO_IP)
      (if cmd = chr_j then MCAST_JOIN_GROUP else MCAST_LEAVE_GROUP)
      (Group_req (ifindex (iface mcg)) (group mcg))
      (smclog LOG_DEBUG ''%s group (%s,%s) on ifindex %d and socket %d ...''
         [S (if cmd = chr_j then ''Join'' else ''Leave''), S ''*'',
          S (inet_addr2str p (group mcg)), D (ifindex (iface mcg)), D sd] w)"
  using assms by (simp add: group_req_def group_req_rfc3678_def)

lemma group_req_rfc3678_ssm:
  assumes "HAVE_STRUCT_GROUP_REQ p" and "\<not> is_anyaddr (source mcg)"
  shows "group_req p sd cmd mcg w =
    setsockopt p sd
      (if HAVE_IPV6_MULTICAST_HOST p \<and> ss_family (group mcg) = AF_INET6
       then IPPROTO_IPV6 else IPPROTO_IP)
      (if cmd = chr_j then MCAST_JOIN_SOURCE_GROUP else MCAST_LEAVE_SOURCE_GROUP)
      (Group_source_req (ifindex (iface mcg)) (source mcg) (group mcg))
      (smclog LOG_DEBUG ''%s group (%s,%s) on ifindex %d and socket %d ...''
         [S (if cmd = chr_j then ''Join'' else ''Leave''), S (inet_addr2str p (source mcg)),
          S (inet_addr2str p (group mcg)), D (ifindex (iface mcg)), D sd] w)"
  using assms by (simp add: group_req_def group_req_rfc3678_def)

lemma group_req_legacy_ipv6:
  assumes "\<not> HAVE_STRUCT_GROUP_REQ p"
    and "HAVE_IPV6_MULTICAST_HOST p \<and> ss_family (group mcg) = AF_INET6"
  shows "group_req p sd cmd mcg w =
    setsockopt p sd IPPROTO_IPV6
      (if cmd = chr_j then IPV6_JOIN_GROUP else IPV6_LEAVE_GROUP)
      (Ipv6_mreq (inet_addr6_get (group mcg)) (ifindex (iface mcg)))
      (smclog LOG_DEBUG ''%s group (*,%s) on ifindex %d ...''
         [S (if cmd = chr_j then ''Join'' else ''Leave''),
          S (inet_addr2str p (group mcg)), D (ifindex (iface mcg))] w)"
  using assms by (simp add: group_req_def group_req_legacy_def)

lemma group_req_legacy_ipv4:
  assumes "\<not> HAVE_STRUCT_GROUP_REQ p"
    and "\<not> (HAVE_IPV6_MULTICAST_HOST p \<and> ss_family (group mcg) = AF_INET6)"
  shows "group_req p sd cmd mcg w =
    setsockopt p sd IPPROTO_IP
      (if cmd = chr_j then IP_ADD_MEMBERSHIP else IP_DROP_MEMBERSHIP)
      (if HAVE_STRUCT_IP_MREQN p
       then Ip_mreqn (inet_addr_get (group mcg)) (ifindex (iface mcg))
       else Ip_mreq (inet_addr_get (group mcg)) (inaddr (iface mcg)))
      (smclog LOG_DEBUG ''%s group (*,%s) on ifindex %d ...''
         [S (if cmd = chr_j then ''Join'' else ''Leave''),
          S (inet_addr2str p (group mcg)), D (ifindex (iface mcg))] w)"
  using assms
  by (cases "HAVE_IPV6_MULTICAST_HOST p") (simp_all add: group_req_def group_req_legacy_def)

lemma kern_join_leave_after:
  assumes "group_req p sd (if cmd = 0 then chr_j else cmd) mcg w =
             setsockopt p sd proto op arg (smclog LOG_DEBUG fmt args w)"
  shows "kern_join_leave p sd cmd mcg w =
    (case sys_setsockopt p sd proto op arg of
       None \<Rightarrow> (0, w\<lparr>trace := trace w @ [Smclog LOG_DEBUG fmt args, Setsockopt sd proto op arg]\<rparr>)
     | Some e \<Rightarrow>
         (1, w\<lparr>errno := e,
               trace := trace w @
                 [Smclog LOG_DEBUG fmt args, Setsockopt sd proto op arg,
                  Smclog LOG_ERR ''Failed %s group (%s,%s/%d) on sd %d ... %d: %s''
                    [S (if cmd = 0 \<or> cmd = chr_j then ''joining'' else ''leaving''),
                     S (if is_anyaddr (source mcg) then ''*''
                        else inet_addr2str p (source mcg)),
                     S (inet_addr2str p (group mcg)),
                     D (if len mcg = 0 then 32 else len mcg), D sd, D e,
                     S (strerror p e)]]\<rparr>))"
  unfolding kern_join_leave_def Let_def assms
  by (simp add: eff_defs Let_def split: option.split)


lemma effective_command:
  "((if cmd = 0 then chr_j else cmd) = chr_j) = (cmd = 0 \<or> cmd = chr_j)"
  by (simp add: chr_j_106)

lemma kern_join_leave_run:
  obtains proto op arg fmt args where
    "kern_join_leave p sd cmd mcg w =
      (case sys_setsockopt p sd proto op arg of
         None \<Rightarrow>
           (0, w\<lparr>trace := trace w @ [Smclog LOG_DEBUG fmt args, Setsockopt sd proto op arg]\<rparr>)
       | Some e \<Rightarrow>
           (1, w\<lparr>errno := e,
                 trace := trace w @
                   [Smclog LOG_DEBUG fmt args, Setsockopt sd proto op arg,
                    Smclog LOG_ERR ''Failed %s group (%s,%s/%d) on sd %d ... %d: %s''
                      [S (if cmd = 0 \<or> cmd = chr_j then ''joining'' else ''leaving''),
                       S (if is_anyaddr (source mcg) then ''*''
                          else inet_addr2str p (source mcg)),
                       S (inet_addr2str p (group mcg)),
                       D (if len mcg = 0 then 32 else len mcg), D sd, D e,
                       S (strerror p e)]]\<rparr>))"
    and "proto = (if HAVE_IPV6_MULTICAST_HOST p \<and> ss_family (group mcg) = AF_INET6
                  then IPPROTO_IPV6 else IPPROTO_IP)"
    and "HAVE_STRUCT_GROUP_REQ p \<Longrightarrow> is_anyaddr (source mcg) \<Longrightarrow>
           op = (if cmd = 0 \<or> cmd = chr_j then MCAST_JOIN_GROUP else MCAST_LEAVE_GROUP) \<and>
           arg = Group_req (ifindex (iface mcg)) (group mcg)"
    and "HAVE_STRUCT_GROUP_REQ p \<Longrightarrow> \<not> is_anyaddr (source mcg) \<Longrightarrow>
           op = (if cmd = 0 \<or> cmd = chr_j then MCAST_JOIN_SOURCE_GROUP
                 else MCAST_LEAVE_SOURCE_GROUP) \<and>
           arg = Group_source_req (ifindex (iface mcg)) (source mcg) (group mcg)"
    and "\<not> HAVE_STRUCT_GROUP_REQ p \<Longrightarrow> proto = IPPROTO_IPV6 \<Longrightarrow>
           op = (if cmd = 0 \<or> cmd = chr_j then IPV6_JOIN_GROUP else IPV6_LEAVE_GROUP) \<and>
           arg = Ipv6_mreq (inet_addr6_get (group mcg)) (ifindex (iface mcg))"
    and "\<not> HAVE_STRUCT_GROUP_REQ p \<Longrightarrow> proto = IPPROTO_IP \<Longrightarrow>
           op = (if cmd = 0 \<or> cmd = chr_j then IP_ADD_MEMBERSHIP else IP_DROP_MEMBERSHIP) \<and>
           arg = (if HAVE_STRUCT_IP_MREQN p
                  then Ip_mreqn (inet_addr_get (group mcg)) (ifindex (iface mcg))
                  else Ip_mreq (inet_addr_get (group mcg)) (inaddr (iface mcg)))"
    and "hd args = S (if cmd = 0 \<or> cmd = chr_j then ''Join'' else ''Leave'')"
    and "S (inet_addr2str p (group mcg)) \<in> set args"
    and "D (ifindex (iface mcg)) \<in> set args"
proof -
  let ?c = "if cmd = 0 then chr_j else cmd"
  let ?v6 = "HAVE_IPV6_MULTICAST_HOST p \<and> ss_family (group mcg) = AF_INET6"
  consider (asm) "HAVE_STRUCT_GROUP_REQ p" "is_anyaddr (source mcg)"
    | (ssm) "HAVE_STRUCT_GROUP_REQ p" "\<not> is_anyaddr (source mcg)"
    | (legacy6) "\<not> HAVE_STRUCT_GROUP_REQ p" "?v6"
    | (legacy4) "\<not> HAVE_STRUCT_GROUP_REQ p" "\<not> ?v6"
    by blast
  then show thesis
  proof cases
    case asm
    show thesis
      by (rule that [OF kern_join_leave_after
            [OF group_req_rfc3678_asm [OF asm, of sd ?c w]]])
         (use asm in \<open>simp_all add: effective_command\<close>)
  next
    case ssm
    show thesis
      by (rule that [OF kern_join_leave_after
            [OF group_req_rfc3678_ssm [OF ssm, of sd ?c w]]])
         (use ssm in \<open>simp_all add: effective_command\<close>)
  next
    case legacy6
    show thesis
      by (rule that [OF kern_join_leave_after
            [OF group_req_legacy_ipv6 [OF legacy6, of sd ?c w]]])
         (use legacy6 in \<open>simp_all add: effective_command\<close>)
  next
    case legacy4
    show thesis
      by (rule that [OF kern_join_leave_after
            [OF group_req_legacy_ipv4 [OF legacy4, of sd ?c w]]])
         (use legacy4 in \<open>simp_all add: effective_command\<close>)
  qed
qed

subsection \<open>More on the forwarding-cache operations\<close>

lemma kern_mroute6_after:
  assumes "0 \<le> sd"
    and "set_ifs 0 (ttl route) (IF_ZERO (replicate (IF_SETSIZE p) False)) = Inr ifset"
  shows "kern_mroute6 p sd cmd route w =
     (let op = (if cmd = chr_a then MRT6_ADD_MFC else MRT6_DEL_MFC);
          mc = \<lparr>mf6cc_origin = inet_addr6_get (route_source route),
                 mf6cc_mcastgrp = inet_addr6_get (route_group route),
                 mf6cc_parent = inbound route,
                 mf6cc_ifset = ifset\<rparr>;
          origin = inet_addr2str p (route_source route);
          grp = inet_addr2str p (route_group route);
          w1 = w\<lparr>trace := trace w @ [Setsockopt sd IPPROTO_IPV6 op (Mf6cctl mc)]\<rparr>
      in case sys_setsockopt p sd IPPROTO_IPV6 op (Mf6cctl mc) of
           Some e \<Rightarrow>
             Inr (1, w1\<lparr>errno := e, trace := trace w1 @
               [if e = ENOENT
                then Smclog LOG_DEBUG
                       ''failed removing IPv6 multicast route (%s,%s), does not exist.''
                       [S origin, S grp]
                else Smclog LOG_WARNING ''failed %s IPv6 multicast route (%s,%s): %s''
                       [S (if cmd = chr_a then ''adding'' else ''removing''),
                        S origin, S grp, S (strerror p e)]]\<rparr>)
         | None \<Rightarrow> Inr (0, w1))"
  using assms
  by (simp add: kern_mroute6_def eff_defs Let_def split: option.split)

lemma kern_mroute6_fault:
  "0 \<le> sd \<Longrightarrow> set_ifs 0 (ttl route) (IF_ZERO (replicate (IF_SETSIZE p) False)) = Inl f \<Longrightarrow>
   kern_mroute6 p sd cmd route w = Inl f"
  by (simp add: kern_mroute6_def)

lemma kern_mroute4_fault_only_when_short:
  "kern_mroute4 p sd cmd route active w = Inl f \<Longrightarrow>
   sd \<noteq> - 1 \<and> length (ttl route) < MAXVIFS p"
proof (rule ccontr)
  assume run: "kern_mroute4 p sd cmd route active w = Inl f"
    and "\<not> (sd \<noteq> - 1 \<and> length (ttl route) < MAXVIFS p)"
  then consider "sd = - 1" | "sd \<noteq> - 1" "MAXVIFS p \<le> length (ttl route)"
    by linarith
  then show False
  proof cases
    case 1
    with run show False by (simp add: kern_mroute4_no_socket)
  next
    case 2
    with run show False
      by (simp add: kern_mroute4_submit Let_def split: option.splits)
  qed
qed

lemma kern_mroute6_fault_only_when_long:
  "kern_mroute6 p sd cmd route w = Inl f \<Longrightarrow> 0 \<le> sd \<and> IF_SETSIZE p < length (ttl route)"
proof (rule ccontr)
  assume run: "kern_mroute6 p sd cmd route w = Inl f"
    and "\<not> (0 \<le> sd \<and> IF_SETSIZE p < length (ttl route))"
  then consider "sd < 0" | "0 \<le> sd" "length (ttl route) \<le> IF_SETSIZE p"
    by linarith
  then show False
  proof cases
    case 1
    with run show False by (simp add: kern_mroute6_no_socket)
  next
    case 2
    with run show False
      by (simp add: kern_mroute6_submit Let_def split: option.splits)
  qed
qed

lemma IF_ISSET_map_upt: "IF_ISSET i (map f [0..<n]) = (i < n \<and> f i)"
  by (auto simp: IF_ISSET_def)

lemma nth_0503:
  "(i < length [0, 5, 0, 3 :: 8 word] \<and> [0, 5, 0, 3 :: 8 word] ! i \<noteq> 0) = (i = 1 \<or> i = 3)"
proof -
  have "i < length [0, 5, 0, 3 :: 8 word] \<longleftrightarrow> i = 0 \<or> i = 1 \<or> i = 2 \<or> i = 3"
    by auto
  then show ?thesis by auto
qed

text \<open>
  With a descriptor it takes for unavailable, each operation logs one debug line, issues no
  kernel call and returns -1.
\<close>

lemma kern_mroute4_no_socket_silent:
  "\<exists>w'. kern_mroute4 p (- 1) cmd route active w = Inr (- 1, w') \<and>
     kernel_calls (issued w w') = [] \<and>
     log_lines (issued w w') = [Smclog LOG_DEBUG ''No IPv4 multicast socket'' []]"
  by (simp add: kern_mroute4_no_socket eff_defs obs_defs)

lemma kern_mroute6_no_socket_silent:
  "sd < 0 \<Longrightarrow>
   \<exists>w'. kern_mroute6 p sd cmd route w = Inr (- 1, w') \<and>
     kernel_calls (issued w w') = [] \<and>
     log_lines (issued w w') = [Smclog LOG_DEBUG ''No IPv6 multicast socket'' []]"
  by (simp add: kern_mroute6_no_socket eff_defs obs_defs)

subsection \<open>The operations only append to the trace\<close>

lemma kern_join_leave_extends:
  "trace (snd (kern_join_leave p sd cmd mcg w)) =
     trace w @ issued w (snd (kern_join_leave p sd cmd mcg w))"
proof -
  obtain proto op arg fmt args where
    run: "kern_join_leave p sd cmd mcg w =
      (case sys_setsockopt p sd proto op arg of
         None \<Rightarrow>
           (0, w\<lparr>trace := trace w @ [Smclog LOG_DEBUG fmt args, Setsockopt sd proto op arg]\<rparr>)
       | Some e \<Rightarrow>
           (1, w\<lparr>errno := e,
                 trace := trace w @
                   [Smclog LOG_DEBUG fmt args, Setsockopt sd proto op arg,
                    Smclog LOG_ERR ''Failed %s group (%s,%s/%d) on sd %d ... %d: %s''
                      [S (if cmd = 0 \<or> cmd = chr_j then ''joining'' else ''leaving''),
                       S (if is_anyaddr (source mcg) then ''*''
                          else inet_addr2str p (source mcg)),
                       S (inet_addr2str p (group mcg)),
                       D (if len mcg = 0 then 32 else len mcg), D sd, D e,
                       S (strerror p e)]]\<rparr>))"
    by (rule kern_join_leave_run [of p sd cmd mcg w]) blast
  show ?thesis
    unfolding run by (cases "sys_setsockopt p sd proto op arg") (simp_all add: issued_def)
qed

lemma kern_mroute4_extends:
  assumes "kern_mroute4 p sd cmd route active w = Inr (r, w')"
  shows "trace w' = trace w @ issued w w'"
proof (cases "sd = - 1")
  case True
  with assms show ?thesis
    by (auto simp: kern_mroute4_no_socket eff_defs issued_def)
next
  case False
  with assms kern_mroute4_fault [of sd route p cmd active w]
  have len: "MAXVIFS p \<le> length (ttl route)"
    by (cases "MAXVIFS p \<le> length (ttl route)") simp_all
  show ?thesis
  proof (cases "sys_setsockopt p sd IPPROTO_IP
                  (if cmd = chr_a then MRT_ADD_MFC else MRT_DEL_MFC)
                  (Mfcctl \<lparr>mfcc_origin = inet_addr_get (route_source route),
                           mfcc_mcastgrp = inet_addr_get (route_group route),
                           mfcc_parent = inbound route,
                           mfcc_ttls = take (MAXVIFS p) (ttl route)\<rparr>)")
    case None
    with assms len False show ?thesis
      by (auto simp: kern_mroute4_submit Let_def issued_def split: if_splits)
  next
    case (Some e)
    with assms len False show ?thesis
      by (auto simp: kern_mroute4_submit Let_def issued_def)
  qed
qed

lemma kern_mroute6_extends:
  assumes "kern_mroute6 p sd cmd route w = Inr (r, w')"
  shows "trace w' = trace w @ issued w w'"
proof (cases "sd < 0")
  case True
  with assms show ?thesis
    by (auto simp: kern_mroute6_no_socket eff_defs issued_def)
next
  case False
  then have sd: "0 \<le> sd" by simp
  obtain ifset where
    ifs: "set_ifs 0 (ttl route) (IF_ZERO (replicate (IF_SETSIZE p) False)) = Inr ifset"
    using assms kern_mroute6_fault [OF sd, of route p _ cmd w]
    by (cases "set_ifs 0 (ttl route) (IF_ZERO (replicate (IF_SETSIZE p) False))") auto
  show ?thesis
  proof (cases "sys_setsockopt p sd IPPROTO_IPV6
                  (if cmd = chr_a then MRT6_ADD_MFC else MRT6_DEL_MFC)
                  (Mf6cctl \<lparr>mf6cc_origin = inet_addr6_get (route_source route),
                            mf6cc_mcastgrp = inet_addr6_get (route_group route),
                            mf6cc_parent = inbound route,
                            mf6cc_ifset = ifset\<rparr>)")
    case None
    with assms show ?thesis
      by (auto simp: kern_mroute6_after [OF sd ifs] Let_def issued_def)
  next
    case (Some e)
    with assms show ?thesis
      by (auto simp: kern_mroute6_after [OF sd ifs] Let_def issued_def)
  qed
qed

lemmas join_defs = kern_join_leave_def group_req_def group_req_rfc3678_def group_req_legacy_def

section \<open>The claims\<close>

text \<open>
  C1, as stated, fails. The claim: in whichever membership implementation the build has, a
  request whose source is not the "any" address is issued as a Source-Specific join or leave
  carrying that source. In a build without the RFC 3678 structures, a join of group
  225.1.2.3 from the source 10.0.0.1 is issued as \<^verbatim>\<open>IP_ADD_MEMBERSHIP\<close> with an
  \<^verbatim>\<open>ip_mreqn\<close> that holds the group and the interface index and no source.
\<close>

theorem legacy_build_ignores_source:
  "\<not> is_anyaddr (source ssm_request) \<and>
   kernel_calls (issued world0 (snd (kern_join_leave legacy_build 3 chr_j ssm_request world0))) =
     [Setsockopt 3 IPPROTO_IP IP_ADD_MEMBERSHIP (Ip_mreqn 0xE1010203 2)] \<and>
   IP_ADD_MEMBERSHIP \<notin> {MCAST_JOIN_SOURCE_GROUP, MCAST_LEAVE_SOURCE_GROUP}"
  by (simp add: join_defs eff_defs obs_defs example_defs is_anyaddr_def inet_addr_get_def
        Let_def)

text \<open>
  C1, amended. In a build with the RFC 3678 structures (\<^verbatim>\<open>HAVE_STRUCT_GROUP_REQ\<close>), a
  request whose source is the "any" address is issued as \<^verbatim>\<open>MCAST_JOIN_GROUP\<close> or
  \<^verbatim>\<open>MCAST_LEAVE_GROUP\<close> with a \<^verbatim>\<open>group_req\<close>, and a request with any other source as
  \<^verbatim>\<open>MCAST_JOIN_SOURCE_GROUP\<close> or \<^verbatim>\<open>MCAST_LEAVE_SOURCE_GROUP\<close> with a
  \<^verbatim>\<open>group_source_req\<close> that carries that source; the other variant is not issued.

  In a build without them no Source-Specific request is issued: every request, whatever its
  source, is issued as a legacy join or leave whose structure has no source. It is
  \<^verbatim>\<open>IPV6_JOIN_GROUP\<close> or \<^verbatim>\<open>IPV6_LEAVE_GROUP\<close> with an \<^verbatim>\<open>ipv6_mreq\<close> when
  \<^verbatim>\<open>HAVE_IPV6_MULTICAST_HOST\<close> is defined and the group's family is \<^verbatim>\<open>AF_INET6\<close>, and
  \<^verbatim>\<open>IP_ADD_MEMBERSHIP\<close> or \<^verbatim>\<open>IP_DROP_MEMBERSHIP\<close> with an \<^verbatim>\<open>ip_mreqn\<close> or \<^verbatim>\<open>ip_mreq\<close>
  in every other case: also for an \<^verbatim>\<open>AF_INET6\<close> group when \<^verbatim>\<open>HAVE_IPV6_MULTICAST_HOST\<close>
  is not defined, since the IPv6 branch is compiled only under that symbol.
\<close>

theorem membership_variant:
  "(HAVE_STRUCT_GROUP_REQ p \<and> is_anyaddr (source mcg) \<longrightarrow>
      kernel_calls (issued w (snd (kern_join_leave p sd cmd mcg w))) =
        [Setsockopt sd
           (if HAVE_IPV6_MULTICAST_HOST p \<and> ss_family (group mcg) = AF_INET6
            then IPPROTO_IPV6 else IPPROTO_IP)
           (if cmd = 0 \<or> cmd = chr_j then MCAST_JOIN_GROUP else MCAST_LEAVE_GROUP)
           (Group_req (ifindex (iface mcg)) (group mcg))]) \<and>
   (HAVE_STRUCT_GROUP_REQ p \<and> \<not> is_anyaddr (source mcg) \<longrightarrow>
      kernel_calls (issued w (snd (kern_join_leave p sd cmd mcg w))) =
        [Setsockopt sd
           (if HAVE_IPV6_MULTICAST_HOST p \<and> ss_family (group mcg) = AF_INET6
            then IPPROTO_IPV6 else IPPROTO_IP)
           (if cmd = 0 \<or> cmd = chr_j then MCAST_JOIN_SOURCE_GROUP
            else MCAST_LEAVE_SOURCE_GROUP)
           (Group_source_req (ifindex (iface mcg)) (source mcg) (group mcg))]) \<and>
   (\<not> HAVE_STRUCT_GROUP_REQ p \<longrightarrow>
      kernel_calls (issued w (snd (kern_join_leave p sd cmd mcg w))) =
        [if HAVE_IPV6_MULTICAST_HOST p \<and> ss_family (group mcg) = AF_INET6
         then Setsockopt sd IPPROTO_IPV6
                (if cmd = 0 \<or> cmd = chr_j then IPV6_JOIN_GROUP else IPV6_LEAVE_GROUP)
                (Ipv6_mreq (inet_addr6_get (group mcg)) (ifindex (iface mcg)))
         else Setsockopt sd IPPROTO_IP
                (if cmd = 0 \<or> cmd = chr_j then IP_ADD_MEMBERSHIP else IP_DROP_MEMBERSHIP)
                (if HAVE_STRUCT_IP_MREQN p
                 then Ip_mreqn (inet_addr_get (group mcg)) (ifindex (iface mcg))
                 else Ip_mreq (inet_addr_get (group mcg)) (inaddr (iface mcg)))])"
proof -
  obtain proto op arg fmt args where
    run: "kern_join_leave p sd cmd mcg w =
      (case sys_setsockopt p sd proto op arg of
         None \<Rightarrow>
           (0, w\<lparr>trace := trace w @ [Smclog LOG_DEBUG fmt args, Setsockopt sd proto op arg]\<rparr>)
       | Some e \<Rightarrow>
           (1, w\<lparr>errno := e,
                 trace := trace w @
                   [Smclog LOG_DEBUG fmt args, Setsockopt sd proto op arg,
                    Smclog LOG_ERR ''Failed %s group (%s,%s/%d) on sd %d ... %d: %s''
                      [S (if cmd = 0 \<or> cmd = chr_j then ''joining'' else ''leaving''),
                       S (if is_anyaddr (source mcg) then ''*''
                          else inet_addr2str p (source mcg)),
                       S (inet_addr2str p (group mcg)),
                       D (if len mcg = 0 then 32 else len mcg), D sd, D e,
                       S (strerror p e)]]\<rparr>))"
    and proto: "proto = (if HAVE_IPV6_MULTICAST_HOST p \<and> ss_family (group mcg) = AF_INET6
                  then IPPROTO_IPV6 else IPPROTO_IP)"
    and asm: "HAVE_STRUCT_GROUP_REQ p \<Longrightarrow> is_anyaddr (source mcg) \<Longrightarrow>
           op = (if cmd = 0 \<or> cmd = chr_j then MCAST_JOIN_GROUP else MCAST_LEAVE_GROUP) \<and>
           arg = Group_req (ifindex (iface mcg)) (group mcg)"
    and ssm: "HAVE_STRUCT_GROUP_REQ p \<Longrightarrow> \<not> is_anyaddr (source mcg) \<Longrightarrow>
           op = (if cmd = 0 \<or> cmd = chr_j then MCAST_JOIN_SOURCE_GROUP
                 else MCAST_LEAVE_SOURCE_GROUP) \<and>
           arg = Group_source_req (ifindex (iface mcg)) (source mcg) (group mcg)"
    and legacy6: "\<not> HAVE_STRUCT_GROUP_REQ p \<Longrightarrow> proto = IPPROTO_IPV6 \<Longrightarrow>
           op = (if cmd = 0 \<or> cmd = chr_j then IPV6_JOIN_GROUP else IPV6_LEAVE_GROUP) \<and>
           arg = Ipv6_mreq (inet_addr6_get (group mcg)) (ifindex (iface mcg))"
    and legacy4: "\<not> HAVE_STRUCT_GROUP_REQ p \<Longrightarrow> proto = IPPROTO_IP \<Longrightarrow>
           op = (if cmd = 0 \<or> cmd = chr_j then IP_ADD_MEMBERSHIP else IP_DROP_MEMBERSHIP) \<and>
           arg = (if HAVE_STRUCT_IP_MREQN p
                  then Ip_mreqn (inet_addr_get (group mcg)) (ifindex (iface mcg))
                  else Ip_mreq (inet_addr_get (group mcg)) (inaddr (iface mcg)))"
    by (rule kern_join_leave_run [of p sd cmd mcg w]) blast
  have calls: "kernel_calls (issued w (snd (kern_join_leave p sd cmd mcg w))) =
                 [Setsockopt sd proto op arg]"
    unfolding run by (simp add: obs_defs split: option.split)
  have a: "HAVE_STRUCT_GROUP_REQ p \<and> is_anyaddr (source mcg) \<longrightarrow>
      kernel_calls (issued w (snd (kern_join_leave p sd cmd mcg w))) =
        [Setsockopt sd
           (if HAVE_IPV6_MULTICAST_HOST p \<and> ss_family (group mcg) = AF_INET6
            then IPPROTO_IPV6 else IPPROTO_IP)
           (if cmd = 0 \<or> cmd = chr_j then MCAST_JOIN_GROUP else MCAST_LEAVE_GROUP)
           (Group_req (ifindex (iface mcg)) (group mcg))]"
    using calls asm proto by auto
  have b: "HAVE_STRUCT_GROUP_REQ p \<and> \<not> is_anyaddr (source mcg) \<longrightarrow>
      kernel_calls (issued w (snd (kern_join_leave p sd cmd mcg w))) =
        [Setsockopt sd
           (if HAVE_IPV6_MULTICAST_HOST p \<and> ss_family (group mcg) = AF_INET6
            then IPPROTO_IPV6 else IPPROTO_IP)
           (if cmd = 0 \<or> cmd = chr_j then MCAST_JOIN_SOURCE_GROUP
            else MCAST_LEAVE_SOURCE_GROUP)
           (Group_source_req (ifindex (iface mcg)) (source mcg) (group mcg))]"
    using calls ssm proto by auto
  have c: "\<not> HAVE_STRUCT_GROUP_REQ p \<longrightarrow>
      kernel_calls (issued w (snd (kern_join_leave p sd cmd mcg w))) =
        [if HAVE_IPV6_MULTICAST_HOST p \<and> ss_family (group mcg) = AF_INET6
         then Setsockopt sd IPPROTO_IPV6
                (if cmd = 0 \<or> cmd = chr_j then IPV6_JOIN_GROUP else IPV6_LEAVE_GROUP)
                (Ipv6_mreq (inet_addr6_get (group mcg)) (ifindex (iface mcg)))
         else Setsockopt sd IPPROTO_IP
                (if cmd = 0 \<or> cmd = chr_j then IP_ADD_MEMBERSHIP else IP_DROP_MEMBERSHIP)
                (if HAVE_STRUCT_IP_MREQN p
                 then Ip_mreqn (inet_addr_get (group mcg)) (ifindex (iface mcg))
                 else Ip_mreq (inet_addr_get (group mcg)) (inaddr (iface mcg)))]"
  proof
    assume l: "\<not> HAVE_STRUCT_GROUP_REQ p"
    show "kernel_calls (issued w (snd (kern_join_leave p sd cmd mcg w))) =
        [if HAVE_IPV6_MULTICAST_HOST p \<and> ss_family (group mcg) = AF_INET6
         then Setsockopt sd IPPROTO_IPV6
                (if cmd = 0 \<or> cmd = chr_j then IPV6_JOIN_GROUP else IPV6_LEAVE_GROUP)
                (Ipv6_mreq (inet_addr6_get (group mcg)) (ifindex (iface mcg)))
         else Setsockopt sd IPPROTO_IP
                (if cmd = 0 \<or> cmd = chr_j then IP_ADD_MEMBERSHIP else IP_DROP_MEMBERSHIP)
                (if HAVE_STRUCT_IP_MREQN p
                 then Ip_mreqn (inet_addr_get (group mcg)) (ifindex (iface mcg))
                 else Ip_mreq (inet_addr_get (group mcg)) (inaddr (iface mcg)))]"
    proof (cases "HAVE_IPV6_MULTICAST_HOST p \<and> ss_family (group mcg) = AF_INET6")
      case True
      then have "proto = IPPROTO_IPV6" using proto by simp
      with legacy6 [OF l] calls True show ?thesis by simp
    next
      case False
      then have "proto = IPPROTO_IP" using proto by simp
      with legacy4 [OF l] calls False show ?thesis by simp
    qed
  qed
  from a b c show ?thesis by blast
qed

text \<open>
  C1, amended, at five inputs: an Any-Source and a Source-Specific join with the RFC 3678
  structures; and, without them, a leave of an IPv4 group with a source, a join of an IPv6
  group with a source, and the same join in a build where \<^verbatim>\<open>HAVE_IPV6_MULTICAST_HOST\<close> is not
  defined, which is issued as \<^verbatim>\<open>IP_ADD_MEMBERSHIP\<close>.
\<close>

theorem membership_variant_witness:
  "kernel_calls (issued world0 (snd (kern_join_leave rfc3678_build 3 chr_j asm_request world0))) =
     [Setsockopt 3 IPPROTO_IP MCAST_JOIN_GROUP
        (Group_req 2 \<lparr>ss_family = AF_INET, ss_addr = 0xE1010203\<rparr>)] \<and>
   kernel_calls (issued world0 (snd (kern_join_leave rfc3678_build 3 chr_j ssm_request world0))) =
     [Setsockopt 3 IPPROTO_IP MCAST_JOIN_SOURCE_GROUP
        (Group_source_req 2 \<lparr>ss_family = AF_INET, ss_addr = 0x0A000001\<rparr>
           \<lparr>ss_family = AF_INET, ss_addr = 0xE1010203\<rparr>)] \<and>
   kernel_calls (issued world0 (snd (kern_join_leave legacy_build 3 5 ssm_request world0))) =
     [Setsockopt 3 IPPROTO_IP IP_DROP_MEMBERSHIP (Ip_mreqn 0xE1010203 2)] \<and>
   kernel_calls (issued world0 (snd (kern_join_leave legacy_build 3 chr_j ssm_request6 world0))) =
     [Setsockopt 3 IPPROTO_IPV6 IPV6_JOIN_GROUP
        (Ipv6_mreq 0xFF150000000000000000000000000001 2)] \<and>
   \<not> HAVE_IPV6_MULTICAST_HOST legacy_build_no_ipv6 \<and>
   ss_family (group ssm_request6) = AF_INET6 \<and>
   kernel_calls
     (issued world0 (snd (kern_join_leave legacy_build_no_ipv6 3 chr_j ssm_request6 world0))) =
     [Setsockopt 3 IPPROTO_IP IP_ADD_MEMBERSHIP
        (Ip_mreqn (inet_addr_get (group ssm_request6)) 2)]"
  using membership_variant [of rfc3678_build asm_request world0 3 chr_j]
    membership_variant [of rfc3678_build ssm_request world0 3 chr_j]
    membership_variant [of legacy_build ssm_request world0 3 5]
    membership_variant [of legacy_build ssm_request6 world0 3 chr_j]
    membership_variant [of legacy_build_no_ipv6 ssm_request6 world0 3 chr_j]
  by (simp add: example_defs is_anyaddr_def inet_addr_get_def inet_addr6_get_def chr_j_106)

text \<open>
  C2. With the descriptor -1, \<^verbatim>\<open>kern_mroute4\<close> returns -1 and issues no kernel call, and
  \<^verbatim>\<open>kern_mroute6\<close> does so with every negative descriptor (the two lemmas above). With any
  other negative descriptor \<^verbatim>\<open>kern_mroute4\<close> does not: its test is \<^verbatim>\<open>sd == -1\<close>, where
  \<^verbatim>\<open>kern_mroute6\<close> tests \<^verbatim>\<open>sd < 0\<close>. With the descriptor -2 it builds the structure and
  issues the kernel call on descriptor -2; the kernel refusing it with \<^verbatim>\<open>EBADF\<close>, it logs
  the failure and returns 1, the generic failure.
\<close>

theorem kern_mroute4_calls_kernel_on_negative_sd:
  "kern_mroute4 (rfc3678_build\<lparr>sys_setsockopt := kernel_refuses EBADF\<rparr>) (- 2) chr_a
     route_34 1 world0 =
   Inr (1, \<lparr>errno = EBADF,
            trace =
              [Setsockopt (- 2) IPPROTO_IP MRT_ADD_MFC
                 (Mfcctl \<lparr>mfcc_origin = 0x0A000001, mfcc_mcastgrp = 0xE1010203,
                          mfcc_parent = 1, mfcc_ttls = [0, 5, 0, 3] @ replicate 28 0\<rparr>),
               Smclog LOG_DEBUG ''failed %s IPv4 multicast route (%s,%s): %s''
                 [S ''adding'', S ''ipv4'', S ''ipv4'', S ''Bad file descriptor'']]\<rparr>)"
  by (simp add: kern_mroute4_submit example_defs Let_def inet_addr_get_def ENOENT_def chr_a_97)

text \<open>
  C3. For every route whose \<^verbatim>\<open>ttl\<close> array has at least as many elements as the kernel's
  \<^verbatim>\<open>mfcc_ttls\<close>, however many more, and every available descriptor: \<^verbatim>\<open>kern_mroute4\<close>
  returns, and the structure it hands to the kernel has a TTL vector of exactly \<^verbatim>\<open>MAXVIFS\<close>
  elements, element \<open>i\<close> being element \<open>i\<close> of the route's array for every \<open>i\<close> below
  \<^verbatim>\<open>MAXVIFS\<close>. (With a shorter array the loop reads beyond it: \<open>kern_mroute4_fault\<close>.)
\<close>

theorem mfcc_ttls_bound:
  assumes "sd \<noteq> - 1" and "MAXVIFS p \<le> length (ttl route)"
  shows "\<exists>r w' mc.
    kern_mroute4 p sd cmd route active w = Inr (r, w') \<and>
    kernel_calls (issued w w') =
      [Setsockopt sd IPPROTO_IP (if cmd = chr_a then MRT_ADD_MFC else MRT_DEL_MFC)
         (Mfcctl mc)] \<and>
    length (mfcc_ttls mc) = MAXVIFS p \<and>
    (\<forall>i<MAXVIFS p. mfcc_ttls mc ! i = ttl route ! i)"
  using assms
  by (simp add: kern_mroute4_submit Let_def obs_defs split: option.split)

text \<open>
  C3 at a route with 34 elements, on a platform whose \<^verbatim>\<open>MAXVIFS\<close> is 32.
\<close>

theorem mfcc_ttls_bound_witness:
  "(5::int) \<noteq> - 1 \<and> MAXVIFS rfc3678_build \<le> length (ttl route_34) \<and>
   length (ttl route_34) = 34 \<and>
   (\<exists>r w' mc.
      kern_mroute4 rfc3678_build 5 chr_a route_34 1 world0 = Inr (r, w') \<and>
      kernel_calls (issued world0 w') = [Setsockopt 5 IPPROTO_IP MRT_ADD_MFC (Mfcctl mc)] \<and>
      length (mfcc_ttls mc) = 32 \<and>
      (\<forall>i<32. mfcc_ttls mc ! i = ([0, 5, 0, 3] @ replicate 28 0 @ [7, 9]) ! i))"
  using mfcc_ttls_bound [of 5 rfc3678_build route_34 chr_a 1 world0]
  by (simp add: example_defs)

text \<open>
  C4. For every route whose \<^verbatim>\<open>ttl\<close> array has no more elements than an interface set has
  bits, and every descriptor that is not negative: \<^verbatim>\<open>kern_mroute6\<close> returns, and in the
  structure it hands to the kernel bit \<open>i\<close> of the interface set is set exactly when the
  route's array has a nonzero value at index \<open>i\<close>; no other bit is set, the set having been
  cleared first. In particular the vector [0,5,0,3] gives the set with exactly the bits 1
  and 3.
\<close>

theorem mf6cc_ifset_bits:
  assumes "0 \<le> sd" and "length (ttl route) \<le> IF_SETSIZE p"
  shows "\<exists>r w' mc.
    kern_mroute6 p sd cmd route w = Inr (r, w') \<and>
    kernel_calls (issued w w') =
      [Setsockopt sd IPPROTO_IPV6 (if cmd = chr_a then MRT6_ADD_MFC else MRT6_DEL_MFC)
         (Mf6cctl mc)] \<and>
    length (mf6cc_ifset mc) = IF_SETSIZE p \<and>
    (\<forall>i. IF_ISSET i (mf6cc_ifset mc) \<longleftrightarrow> i < length (ttl route) \<and> ttl route ! i \<noteq> 0) \<and>
    (ttl route = [0, 5, 0, 3] \<longrightarrow> (\<forall>i. IF_ISSET i (mf6cc_ifset mc) \<longleftrightarrow> i = 1 \<or> i = 3))"
proof -
  let ?mc = "\<lparr>mf6cc_origin = inet_addr6_get (route_source route),
              mf6cc_mcastgrp = inet_addr6_get (route_group route),
              mf6cc_parent = inbound route,
              mf6cc_ifset = map (\<lambda>i. i < length (ttl route) \<and> ttl route ! i \<noteq> 0)
                              [0..<IF_SETSIZE p]\<rparr>"
  have bits: "IF_ISSET i (mf6cc_ifset ?mc) \<longleftrightarrow> i < length (ttl route) \<and> ttl route ! i \<noteq> 0"
    for i
    using assms(2) by (auto simp: IF_ISSET_map_upt)
  have ex: "ttl route = [0, 5, 0, 3] \<longrightarrow> (\<forall>i. IF_ISSET i (mf6cc_ifset ?mc) \<longleftrightarrow> i = 1 \<or> i = 3)"
  proof
    assume t: "ttl route = [0, 5, 0, 3]"
    show "\<forall>i. IF_ISSET i (mf6cc_ifset ?mc) \<longleftrightarrow> i = 1 \<or> i = 3"
    proof
      fix i
      have "IF_ISSET i (mf6cc_ifset ?mc) \<longleftrightarrow> i < length (ttl route) \<and> ttl route ! i \<noteq> 0"
        by (rule bits)
      also have "\<dots> \<longleftrightarrow> i < length [0, 5, 0, 3 :: 8 word] \<and> [0, 5, 0, 3 :: 8 word] ! i \<noteq> 0"
        by (simp only: t)
      also have "\<dots> \<longleftrightarrow> i = 1 \<or> i = 3"
        by (rule nth_0503)
      finally show "IF_ISSET i (mf6cc_ifset ?mc) \<longleftrightarrow> i = 1 \<or> i = 3" .
    qed
  qed
  have len: "length (mf6cc_ifset ?mc) = IF_SETSIZE p" by simp
  have "\<exists>r w'. kern_mroute6 p sd cmd route w = Inr (r, w') \<and>
      kernel_calls (issued w w') =
        [Setsockopt sd IPPROTO_IPV6 (if cmd = chr_a then MRT6_ADD_MFC else MRT6_DEL_MFC)
           (Mf6cctl ?mc)]"
    using assms
    by (simp add: kern_mroute6_submit Let_def obs_defs split: option.split)
  with bits ex len show ?thesis by blast
qed

text \<open>
  C4 at the route with the vector [0,5,0,3]: bits 1 and 3 are set, bits 0 and 2 are clear.
\<close>

theorem mf6cc_ifset_bits_witness:
  "(0::int) \<le> 6 \<and> length (ttl route_0503) \<le> IF_SETSIZE rfc3678_build \<and>
   ttl route_0503 = [0, 5, 0, 3] \<and>
   (\<exists>r w' mc.
      kern_mroute6 rfc3678_build 6 chr_a route_0503 world0 = Inr (r, w') \<and>
      kernel_calls (issued world0 w') = [Setsockopt 6 IPPROTO_IPV6 MRT6_ADD_MFC (Mf6cctl mc)] \<and>
      length (mf6cc_ifset mc) = 256 \<and>
      \<not> IF_ISSET 0 (mf6cc_ifset mc) \<and> IF_ISSET 1 (mf6cc_ifset mc) \<and>
      \<not> IF_ISSET 2 (mf6cc_ifset mc) \<and> IF_ISSET 3 (mf6cc_ifset mc))"
proof -
  have h1: "(0::int) \<le> 6" by simp
  have h2: "length (ttl route_0503) \<le> IF_SETSIZE rfc3678_build"
    by (simp add: example_defs)
  have t: "ttl route_0503 = [0, 5, 0, 3]"
    by (simp add: example_defs)
  from mf6cc_ifset_bits [OF h1 h2, of chr_a world0] obtain r w' mc where
    run: "kern_mroute6 rfc3678_build 6 chr_a route_0503 world0 = Inr (r, w')"
    and call: "kernel_calls (issued world0 w') =
      [Setsockopt 6 IPPROTO_IPV6 (if chr_a = chr_a then MRT6_ADD_MFC else MRT6_DEL_MFC)
         (Mf6cctl mc)]"
    and len: "length (mf6cc_ifset mc) = IF_SETSIZE rfc3678_build"
    and bits: "ttl route_0503 = [0, 5, 0, 3] \<longrightarrow>
                 (\<forall>i. IF_ISSET i (mf6cc_ifset mc) \<longleftrightarrow> i = 1 \<or> i = 3)"
    by blast
  from bits t have "\<forall>i. IF_ISSET i (mf6cc_ifset mc) \<longleftrightarrow> i = 1 \<or> i = 3" by blast
  then have "\<not> IF_ISSET 0 (mf6cc_ifset mc) \<and> IF_ISSET 1 (mf6cc_ifset mc) \<and>
      \<not> IF_ISSET 2 (mf6cc_ifset mc) \<and> IF_ISSET 3 (mf6cc_ifset mc)"
    by simp
  moreover have "length (mf6cc_ifset mc) = 256"
    using len by (simp add: example_defs)
  ultimately show ?thesis using h1 h2 t run call by auto
qed

text \<open>
  C5. Whenever the kernel refuses the request submitted by \<^verbatim>\<open>kern_mroute4\<close> or
  \<^verbatim>\<open>kern_mroute6\<close> with error number \<open>e\<close>, the operation returns 1 and logs exactly one
  line: if \<open>e\<close> is \<^verbatim>\<open>ENOENT\<close>, the debug line "failed removing ... does not exist"; if not,
  a line with the operation name (adding or removing), the origin, the group and the error
  text, at debug severity in \<^verbatim>\<open>kern_mroute4\<close> and at warning severity in
  \<^verbatim>\<open>kern_mroute6\<close>.
\<close>

theorem mroute_failure_diagnostics:
  "(MAXVIFS p \<le> length (ttl route) \<longrightarrow>
      (\<exists>r w'. kern_mroute4 p sd cmd route active w = Inr (r, w') \<and>
         (\<forall>e. kernel_errors p (issued w w') = [e] \<longrightarrow>
            r = 1 \<and>
            log_lines (issued w w') =
              [if e = ENOENT
               then Smclog LOG_DEBUG
                      ''failed removing multicast route (%s,%s), does not exist.''
                      [S (inet_addr2str p (route_source route)),
                       S (inet_addr2str p (route_group route))]
               else Smclog LOG_DEBUG ''failed %s IPv4 multicast route (%s,%s): %s''
                      [S (if cmd = chr_a then ''adding'' else ''removing''),
                       S (inet_addr2str p (route_source route)),
                       S (inet_addr2str p (route_group route)),
                       S (strerror p e)]]))) \<and>
   (length (ttl route) \<le> IF_SETSIZE p \<longrightarrow>
      (\<exists>r w'. kern_mroute6 p sd cmd route w = Inr (r, w') \<and>
         (\<forall>e. kernel_errors p (issued w w') = [e] \<longrightarrow>
            r = 1 \<and>
            log_lines (issued w w') =
              [if e = ENOENT
               then Smclog LOG_DEBUG
                      ''failed removing IPv6 multicast route (%s,%s), does not exist.''
                      [S (inet_addr2str p (route_source route)),
                       S (inet_addr2str p (route_group route))]
               else Smclog LOG_WARNING ''failed %s IPv6 multicast route (%s,%s): %s''
                      [S (if cmd = chr_a then ''adding'' else ''removing''),
                       S (inet_addr2str p (route_source route)),
                       S (inet_addr2str p (route_group route)),
                       S (strerror p e)]])))"
proof (intro conjI impI)
  assume len: "MAXVIFS p \<le> length (ttl route)"
  show "\<exists>r w'. kern_mroute4 p sd cmd route active w = Inr (r, w') \<and>
         (\<forall>e. kernel_errors p (issued w w') = [e] \<longrightarrow>
            r = 1 \<and>
            log_lines (issued w w') =
              [if e = ENOENT
               then Smclog LOG_DEBUG
                      ''failed removing multicast route (%s,%s), does not exist.''
                      [S (inet_addr2str p (route_source route)),
                       S (inet_addr2str p (route_group route))]
               else Smclog LOG_DEBUG ''failed %s IPv4 multicast route (%s,%s): %s''
                      [S (if cmd = chr_a then ''adding'' else ''removing''),
                       S (inet_addr2str p (route_source route)),
                       S (inet_addr2str p (route_group route)),
                       S (strerror p e)]])"
  proof (cases "sd = - 1")
    case True
    then show ?thesis
      by (simp add: kern_mroute4_no_socket eff_defs obs_defs)
  next
    case False
    with len show ?thesis
      by (simp add: kern_mroute4_submit Let_def obs_defs split: option.split)
  qed
next
  assume len: "length (ttl route) \<le> IF_SETSIZE p"
  show "\<exists>r w'. kern_mroute6 p sd cmd route w = Inr (r, w') \<and>
         (\<forall>e. kernel_errors p (issued w w') = [e] \<longrightarrow>
            r = 1 \<and>
            log_lines (issued w w') =
              [if e = ENOENT
               then Smclog LOG_DEBUG
                      ''failed removing IPv6 multicast route (%s,%s), does not exist.''
                      [S (inet_addr2str p (route_source route)),
                       S (inet_addr2str p (route_group route))]
               else Smclog LOG_WARNING ''failed %s IPv6 multicast route (%s,%s): %s''
                      [S (if cmd = chr_a then ''adding'' else ''removing''),
                       S (inet_addr2str p (route_source route)),
                       S (inet_addr2str p (route_group route)),
                       S (strerror p e)]])"
  proof (cases "sd < 0")
    case True
    then show ?thesis
      by (simp add: kern_mroute6_no_socket eff_defs obs_defs)
  next
    case False
    with len show ?thesis
      by (simp add: kern_mroute6_submit Let_def obs_defs split: option.split)
  qed
qed

text \<open>
  C5 with a kernel that refuses every call with \<^verbatim>\<open>EBADF\<close>: an ADD through
  \<^verbatim>\<open>kern_mroute4\<close> and a DELETE through \<^verbatim>\<open>kern_mroute6\<close>.
\<close>

theorem mroute_failure_diagnostics_witness:
  "MAXVIFS (rfc3678_build\<lparr>sys_setsockopt := kernel_refuses EBADF\<rparr>) \<le> length (ttl route_34) \<and>
   length (ttl route_34) \<le> IF_SETSIZE (rfc3678_build\<lparr>sys_setsockopt := kernel_refuses EBADF\<rparr>) \<and>
   (\<exists>r w'. kern_mroute4 (rfc3678_build\<lparr>sys_setsockopt := kernel_refuses EBADF\<rparr>) 5 chr_a
              route_34 1 world0 = Inr (r, w') \<and>
      kernel_errors (rfc3678_build\<lparr>sys_setsockopt := kernel_refuses EBADF\<rparr>)
        (issued world0 w') = [EBADF] \<and>
      r = 1 \<and>
      log_lines (issued world0 w') =
        [Smclog LOG_DEBUG ''failed %s IPv4 multicast route (%s,%s): %s''
           [S ''adding'', S ''ipv4'', S ''ipv4'', S ''Bad file descriptor'']]) \<and>
   (\<exists>r w'. kern_mroute6 (rfc3678_build\<lparr>sys_setsockopt := kernel_refuses EBADF\<rparr>) 5 7
              route_34 world0 = Inr (r, w') \<and>
      kernel_errors (rfc3678_build\<lparr>sys_setsockopt := kernel_refuses EBADF\<rparr>)
        (issued world0 w') = [EBADF] \<and>
      r = 1 \<and>
      log_lines (issued world0 w') =
        [Smclog LOG_WARNING ''failed %s IPv6 multicast route (%s,%s): %s''
           [S ''removing'', S ''ipv4'', S ''ipv4'', S ''Bad file descriptor'']])"
  using mroute_failure_diagnostics
      [of "rfc3678_build\<lparr>sys_setsockopt := kernel_refuses EBADF\<rparr>" route_34 5 chr_a 1 world0]
    mroute_failure_diagnostics
      [of "rfc3678_build\<lparr>sys_setsockopt := kernel_refuses EBADF\<rparr>" route_34 5 7 1 world0]
  by (simp add: kern_mroute4_submit kern_mroute6_submit example_defs obs_defs Let_def
        ENOENT_def chr_a_97)

text \<open>
  C6. \<^verbatim>\<open>kern_mroute4\<close> returns 0 exactly when the descriptor is available and the kernel
  accepts the request. When it returns 0 and the \<^verbatim>\<open>active\<close> flag is not 0, it makes exactly
  one discovery call, on the route's inbound interface: \<^verbatim>\<open>mrdisc_enable\<close> when the command
  is \<^verbatim>\<open>'a'\<close> (ADD), \<^verbatim>\<open>mrdisc_disable\<close> otherwise (DELETE). When the flag is 0, the kernel
  refuses the request or the descriptor is unavailable, it makes none. \<^verbatim>\<open>kern_mroute6\<close>
  never makes one.
\<close>

theorem mrdisc_notification:
  "(MAXVIFS p \<le> length (ttl route) \<longrightarrow>
      (\<exists>r w'. kern_mroute4 p sd cmd route active w = Inr (r, w') \<and>
         (r = 0 \<longleftrightarrow> sd \<noteq> - 1 \<and> kernel_errors p (issued w w') = []) \<and>
         mrdisc_calls (issued w w') =
           (if r = 0 \<and> active \<noteq> 0
            then [if cmd = chr_a then Mrdisc_enable (inbound route)
                  else Mrdisc_disable (inbound route)]
            else []))) \<and>
   (length (ttl route) \<le> IF_SETSIZE p \<longrightarrow>
      (\<exists>r w'. kern_mroute6 p sd cmd route w = Inr (r, w') \<and>
         mrdisc_calls (issued w w') = []))"
proof (intro conjI impI)
  assume len: "MAXVIFS p \<le> length (ttl route)"
  show "\<exists>r w'. kern_mroute4 p sd cmd route active w = Inr (r, w') \<and>
         (r = 0 \<longleftrightarrow> sd \<noteq> - 1 \<and> kernel_errors p (issued w w') = []) \<and>
         mrdisc_calls (issued w w') =
           (if r = 0 \<and> active \<noteq> 0
            then [if cmd = chr_a then Mrdisc_enable (inbound route)
                  else Mrdisc_disable (inbound route)]
            else [])"
  proof (cases "sd = - 1")
    case True
    then show ?thesis
      by (simp add: kern_mroute4_no_socket eff_defs obs_defs)
  next
    case False
    show ?thesis
    proof (cases "sys_setsockopt p sd IPPROTO_IP
                    (if cmd = chr_a then MRT_ADD_MFC else MRT_DEL_MFC)
                    (Mfcctl \<lparr>mfcc_origin = inet_addr_get (route_source route),
                             mfcc_mcastgrp = inet_addr_get (route_group route),
                             mfcc_parent = inbound route,
                             mfcc_ttls = take (MAXVIFS p) (ttl route)\<rparr>)")
      case None
      with len False show ?thesis
        by (simp add: kern_mroute4_submit Let_def obs_defs)
    next
      case (Some e)
      with len False show ?thesis
        by (simp add: kern_mroute4_submit Let_def obs_defs)
    qed
  qed
next
  assume len: "length (ttl route) \<le> IF_SETSIZE p"
  show "\<exists>r w'. kern_mroute6 p sd cmd route w = Inr (r, w') \<and>
         mrdisc_calls (issued w w') = []"
  proof (cases "sd < 0")
    case True
    then show ?thesis
      by (simp add: kern_mroute6_no_socket eff_defs obs_defs)
  next
    case False
    with len show ?thesis
      by (simp add: kern_mroute6_submit Let_def obs_defs split: option.split)
  qed
qed

text \<open>
  C6 at an ADD and a DELETE with the flag set, an ADD with the flag 0, a refused ADD, an
  ADD on the descriptor -1, and an ADD through \<^verbatim>\<open>kern_mroute6\<close>.
\<close>

theorem mrdisc_notification_witness:
  "MAXVIFS rfc3678_build \<le> length (ttl route_34) \<and>
   length (ttl route_34) \<le> IF_SETSIZE rfc3678_build \<and>
   (\<exists>r w'. kern_mroute4 rfc3678_build 5 chr_a route_34 1 world0 = Inr (r, w') \<and> r = 0 \<and>
      mrdisc_calls (issued world0 w') = [Mrdisc_enable 1]) \<and>
   (\<exists>r w'. kern_mroute4 rfc3678_build 5 100 route_34 1 world0 = Inr (r, w') \<and> r = 0 \<and>
      mrdisc_calls (issued world0 w') = [Mrdisc_disable 1]) \<and>
   (\<exists>r w'. kern_mroute4 rfc3678_build 5 chr_a route_34 0 world0 = Inr (r, w') \<and> r = 0 \<and>
      mrdisc_calls (issued world0 w') = []) \<and>
   (\<exists>r w'. kern_mroute4 (rfc3678_build\<lparr>sys_setsockopt := kernel_refuses EBADF\<rparr>) 5 chr_a
              route_34 1 world0 = Inr (r, w') \<and> r = 1 \<and>
      mrdisc_calls (issued world0 w') = []) \<and>
   (\<exists>r w'. kern_mroute4 rfc3678_build (- 1) chr_a route_34 1 world0 = Inr (r, w') \<and>
      r = - 1 \<and> mrdisc_calls (issued world0 w') = []) \<and>
   (\<exists>r w'. kern_mroute6 rfc3678_build 5 chr_a route_34 world0 = Inr (r, w') \<and> r = 0 \<and>
      mrdisc_calls (issued world0 w') = [])"
  using mrdisc_notification [of rfc3678_build route_34 5 chr_a 1 world0]
    mrdisc_notification [of rfc3678_build route_34 5 100 1 world0]
  by (simp add: kern_mroute4_submit kern_mroute4_no_socket kern_mroute6_submit example_defs
        eff_defs obs_defs Let_def chr_a_97)

text \<open>
  C7. Every call of \<^verbatim>\<open>kern_join_leave\<close> first emits one debug line that describes the
  attempted operation (its first argument is Join or Leave, and the group is among its
  arguments), then issues the kernel request. When the request fails, and only then, the
  result is not 0 and one error line follows, whose arguments are: joining or leaving, the
  source (\<^verbatim>\<open>*\<close> when the source is the "any" address), the group, the prefix length (32 when
  the request's length is 0), the socket descriptor, the error number and the error text.
\<close>

theorem kern_join_leave_diagnostics:
  "\<exists>r w' fmt args proto op arg.
     kern_join_leave p sd cmd mcg w = (r, w') \<and>
     hd args = S (if cmd = 0 \<or> cmd = chr_j then ''Join'' else ''Leave'') \<and>
     S (inet_addr2str p (group mcg)) \<in> set args \<and>
     issued w w' =
       Smclog LOG_DEBUG fmt args # Setsockopt sd proto op arg #
       (case sys_setsockopt p sd proto op arg of
          None \<Rightarrow> []
        | Some e \<Rightarrow>
            [Smclog LOG_ERR ''Failed %s group (%s,%s/%d) on sd %d ... %d: %s''
               [S (if cmd = 0 \<or> cmd = chr_j then ''joining'' else ''leaving''),
                S (if is_anyaddr (source mcg) then ''*'' else inet_addr2str p (source mcg)),
                S (inet_addr2str p (group mcg)),
                D (if len mcg = 0 then 32 else len mcg),
                D sd, D e, S (strerror p e)]]) \<and>
     (r \<noteq> 0 \<longleftrightarrow> sys_setsockopt p sd proto op arg \<noteq> None)"
proof -
  obtain proto op arg fmt args where
    run: "kern_join_leave p sd cmd mcg w =
      (case sys_setsockopt p sd proto op arg of
         None \<Rightarrow>
           (0, w\<lparr>trace := trace w @ [Smclog LOG_DEBUG fmt args, Setsockopt sd proto op arg]\<rparr>)
       | Some e \<Rightarrow>
           (1, w\<lparr>errno := e,
                 trace := trace w @
                   [Smclog LOG_DEBUG fmt args, Setsockopt sd proto op arg,
                    Smclog LOG_ERR ''Failed %s group (%s,%s/%d) on sd %d ... %d: %s''
                      [S (if cmd = 0 \<or> cmd = chr_j then ''joining'' else ''leaving''),
                       S (if is_anyaddr (source mcg) then ''*''
                          else inet_addr2str p (source mcg)),
                       S (inet_addr2str p (group mcg)),
                       D (if len mcg = 0 then 32 else len mcg), D sd, D e,
                       S (strerror p e)]]\<rparr>))"
    and line: "hd args = S (if cmd = 0 \<or> cmd = chr_j then ''Join'' else ''Leave'')"
      "S (inet_addr2str p (group mcg)) \<in> set args"
    by (rule kern_join_leave_run [of p sd cmd mcg w]) blast
  show ?thesis
  proof (cases "sys_setsockopt p sd proto op arg")
    case None
    with run line show ?thesis
      by (intro exI [of _ "0::int"] exI [of _ "snd (kern_join_leave p sd cmd mcg w)"]
            exI [of _ fmt] exI [of _ args] exI [of _ proto] exI [of _ op] exI [of _ arg])
         (simp add: issued_def)
  next
    case (Some e)
    with run line show ?thesis
      by (intro exI [of _ "1::int"] exI [of _ "snd (kern_join_leave p sd cmd mcg w)"]
            exI [of _ fmt] exI [of _ args] exI [of _ proto] exI [of _ op] exI [of _ arg])
         (simp add: issued_def)
  qed
qed

text \<open>
  C7 at a join of (*, 225.1.2.3) with length 0 on descriptor 3 that the kernel refuses.
\<close>

theorem kern_join_leave_diagnostics_witness:
  "kern_join_leave (rfc3678_build\<lparr>sys_setsockopt := kernel_refuses EBADF\<rparr>) 3 0
     asm_request world0 =
   (1, \<lparr>errno = EBADF,
        trace =
          [Smclog LOG_DEBUG ''%s group (%s,%s) on ifindex %d and socket %d ...''
             [S ''Join'', S ''*'', S ''ipv4'', D 2, D 3],
           Setsockopt 3 IPPROTO_IP MCAST_JOIN_GROUP
             (Group_req 2 \<lparr>ss_family = AF_INET, ss_addr = 0xE1010203\<rparr>),
           Smclog LOG_ERR ''Failed %s group (%s,%s/%d) on sd %d ... %d: %s''
             [S ''joining'', S ''*'', S ''ipv4'', D 32, D 3, D 9,
              S ''Bad file descriptor'']]\<rparr>)"
  using kern_join_leave_diagnostics
    [of "rfc3678_build\<lparr>sys_setsockopt := kernel_refuses EBADF\<rparr>" 3 0 asm_request world0]
  by (simp add: join_defs example_defs is_anyaddr_def eff_defs Let_def chr_j_106 ENOENT_def)

text \<open>
  C8. \<^verbatim>\<open>kern_join_leave\<close> returns 0 when the kernel accepts its request and 1 when it
  refuses it, and nothing else, whatever the descriptor. \<^verbatim>\<open>kern_mroute4\<close> and
  \<^verbatim>\<open>kern_mroute6\<close> return -1 for a descriptor they take for unavailable (-1 for the
  first, any negative one for the second), and otherwise 0 when the kernel accepts the
  request and 1 when it refuses it; -1 differs from 1. They return nothing only on an
  access out of bounds, which needs a \<^verbatim>\<open>ttl\<close> array shorter than \<^verbatim>\<open>MAXVIFS\<close>, or longer than
  \<^verbatim>\<open>IF_SETSIZE\<close>.
\<close>

theorem return_values:
  "fst (kern_join_leave p sd cmd mcg w) =
     (if kernel_errors p (issued w (snd (kern_join_leave p sd cmd mcg w))) = [] then 0
      else 1) \<and>
   (case kern_mroute4 p sd cmd route active w of
      Inl f \<Rightarrow> sd \<noteq> - 1 \<and> length (ttl route) < MAXVIFS p
    | Inr (r, w') \<Rightarrow>
        r = (if sd = - 1 then - 1
             else if kernel_errors p (issued w w') = [] then 0 else 1)) \<and>
   (case kern_mroute6 p sd cmd route w of
      Inl f \<Rightarrow> 0 \<le> sd \<and> IF_SETSIZE p < length (ttl route)
    | Inr (r, w') \<Rightarrow>
        r = (if sd < 0 then - 1
             else if kernel_errors p (issued w w') = [] then 0 else 1))"
proof (intro conjI)
  obtain proto op arg fmt args where
    run: "kern_join_leave p sd cmd mcg w =
      (case sys_setsockopt p sd proto op arg of
         None \<Rightarrow>
           (0, w\<lparr>trace := trace w @ [Smclog LOG_DEBUG fmt args, Setsockopt sd proto op arg]\<rparr>)
       | Some e \<Rightarrow>
           (1, w\<lparr>errno := e,
                 trace := trace w @
                   [Smclog LOG_DEBUG fmt args, Setsockopt sd proto op arg,
                    Smclog LOG_ERR ''Failed %s group (%s,%s/%d) on sd %d ... %d: %s''
                      [S (if cmd = 0 \<or> cmd = chr_j then ''joining'' else ''leaving''),
                       S (if is_anyaddr (source mcg) then ''*''
                          else inet_addr2str p (source mcg)),
                       S (inet_addr2str p (group mcg)),
                       D (if len mcg = 0 then 32 else len mcg), D sd, D e,
                       S (strerror p e)]]\<rparr>))"
    by (rule kern_join_leave_run [of p sd cmd mcg w]) blast
  show "fst (kern_join_leave p sd cmd mcg w) =
     (if kernel_errors p (issued w (snd (kern_join_leave p sd cmd mcg w))) = [] then 0
      else 1)"
  proof (cases "sys_setsockopt p sd proto op arg")
    case None
    then show ?thesis unfolding run by (simp add: obs_defs)
  next
    case (Some e)
    then show ?thesis unfolding run by (simp add: obs_defs)
  qed
next
  show "case kern_mroute4 p sd cmd route active w of
      Inl f \<Rightarrow> sd \<noteq> - 1 \<and> length (ttl route) < MAXVIFS p
    | Inr (r, w') \<Rightarrow>
        r = (if sd = - 1 then - 1
             else if kernel_errors p (issued w w') = [] then 0 else 1)"
  proof (cases "kern_mroute4 p sd cmd route active w")
    case (Inl f)
    then show ?thesis
      using kern_mroute4_fault_only_when_short [of p sd cmd route active w f] by simp
  next
    case (Inr res)
    have short: "\<not> (sd \<noteq> - 1 \<and> length (ttl route) < MAXVIFS p)"
      using Inr kern_mroute4_fault [of sd route p cmd active w] by auto
    show ?thesis
    proof (cases "sd = - 1")
      case True
      then show ?thesis
        by (simp add: kern_mroute4_no_socket)
    next
      case False
      with short have len: "MAXVIFS p \<le> length (ttl route)" by simp
      show ?thesis
      proof (cases "sys_setsockopt p sd IPPROTO_IP
                      (if cmd = chr_a then MRT_ADD_MFC else MRT_DEL_MFC)
                      (Mfcctl \<lparr>mfcc_origin = inet_addr_get (route_source route),
                               mfcc_mcastgrp = inet_addr_get (route_group route),
                               mfcc_parent = inbound route,
                               mfcc_ttls = take (MAXVIFS p) (ttl route)\<rparr>)")
        case None
        with len False show ?thesis
          by (simp add: kern_mroute4_submit Let_def obs_defs)
      next
        case (Some e)
        with len False show ?thesis
          by (simp add: kern_mroute4_submit Let_def obs_defs)
      qed
    qed
  qed
next
  show "case kern_mroute6 p sd cmd route w of
      Inl f \<Rightarrow> 0 \<le> sd \<and> IF_SETSIZE p < length (ttl route)
    | Inr (r, w') \<Rightarrow>
        r = (if sd < 0 then - 1
             else if kernel_errors p (issued w w') = [] then 0 else 1)"
  proof (cases "kern_mroute6 p sd cmd route w")
    case (Inl f)
    then show ?thesis
      using kern_mroute6_fault_only_when_long [of p sd cmd route w f] by simp
  next
    case (Inr res)
    show ?thesis
    proof (cases "sd < 0")
      case True
      then show ?thesis
        by (simp add: kern_mroute6_no_socket)
    next
      case False
      then have sd: "0 \<le> sd" by simp
      obtain ifset where
        ifs: "set_ifs 0 (ttl route) (IF_ZERO (replicate (IF_SETSIZE p) False)) = Inr ifset"
        using Inr kern_mroute6_fault [OF sd, of route p _ cmd w]
        by (cases "set_ifs 0 (ttl route) (IF_ZERO (replicate (IF_SETSIZE p) False))") auto
      show ?thesis
      proof (cases "sys_setsockopt p sd IPPROTO_IPV6
                      (if cmd = chr_a then MRT6_ADD_MFC else MRT6_DEL_MFC)
                      (Mf6cctl \<lparr>mf6cc_origin = inet_addr6_get (route_source route),
                                mf6cc_mcastgrp = inet_addr6_get (route_group route),
                                mf6cc_parent = inbound route,
                                mf6cc_ifset = ifset\<rparr>)")
        case None
        with False show ?thesis
          by (simp add: kern_mroute6_after [OF sd ifs] Let_def obs_defs)
      next
        case (Some e)
        with False show ?thesis
          by (simp add: kern_mroute6_after [OF sd ifs] Let_def obs_defs)
      qed
    qed
  qed
qed

text \<open>
  C8 at inputs that give each outcome of each operation.
\<close>

theorem return_values_witness:
  "fst (kern_join_leave rfc3678_build 3 chr_j asm_request world0) = 0 \<and>
   fst (kern_join_leave (rfc3678_build\<lparr>sys_setsockopt := kernel_refuses EBADF\<rparr>) (- 1) chr_j
          asm_request world0) = 1 \<and>
   (\<exists>w'. kern_mroute4 rfc3678_build 5 chr_a route_34 1 world0 = Inr (0, w')) \<and>
   (\<exists>w'. kern_mroute4 (rfc3678_build\<lparr>sys_setsockopt := kernel_refuses ENOENT\<rparr>) 5 100
            route_34 1 world0 = Inr (1, w')) \<and>
   (\<exists>w'. kern_mroute4 rfc3678_build (- 1) chr_a route_34 1 world0 = Inr (- 1, w')) \<and>
   kern_mroute4 rfc3678_build 5 chr_a route_0503 1 world0 = Inl Out_of_bounds \<and>
   (\<exists>w'. kern_mroute6 rfc3678_build 5 chr_a route_34 world0 = Inr (0, w')) \<and>
   (\<exists>w'. kern_mroute6 (rfc3678_build\<lparr>sys_setsockopt := kernel_refuses ENOENT\<rparr>) 5 100
            route_34 world0 = Inr (1, w')) \<and>
   (\<exists>w'. kern_mroute6 rfc3678_build (- 7) chr_a route_34 world0 = Inr (- 1, w'))"
  using return_values [of rfc3678_build 3 chr_j asm_request world0 route_34 1]
  by (simp add: join_defs kern_mroute4_submit kern_mroute4_no_socket kern_mroute4_fault
        kern_mroute6_submit kern_mroute6_no_socket example_defs is_anyaddr_def
        eff_defs obs_defs Let_def chr_a_97 chr_j_106)

text \<open>
  C9. In \<^verbatim>\<open>kern_join_leave\<close> a command of 0 is replaced by the join command \<^verbatim>\<open>'j'\<close>
  before dispatch, so that a call with command 0 is the call with command \<^verbatim>\<open>'j'\<close>; and in
  every build the one kernel request issued is a join exactly when the effective command
  is \<^verbatim>\<open>'j'\<close> (the command given is 0 or \<^verbatim>\<open>'j'\<close>), and a leave for every other command.
\<close>

theorem kern_join_leave_command_dispatch:
  "kern_join_leave p sd 0 mcg w = kern_join_leave p sd chr_j mcg w \<and>
   (\<exists>proto op arg.
      kernel_calls (issued w (snd (kern_join_leave p sd cmd mcg w))) =
        [Setsockopt sd proto op arg] \<and>
      (op \<in> {MCAST_JOIN_GROUP, MCAST_JOIN_SOURCE_GROUP, IPV6_JOIN_GROUP, IP_ADD_MEMBERSHIP}
         \<longleftrightarrow> cmd = 0 \<or> cmd = chr_j) \<and>
      (op \<in> {MCAST_LEAVE_GROUP, MCAST_LEAVE_SOURCE_GROUP, IPV6_LEAVE_GROUP,
               IP_DROP_MEMBERSHIP}
         \<longleftrightarrow> cmd \<noteq> 0 \<and> cmd \<noteq> chr_j))"
proof
  show "kern_join_leave p sd 0 mcg w = kern_join_leave p sd chr_j mcg w"
    by (simp add: kern_join_leave_def chr_j_106)
next
  obtain proto op arg fmt args where
    run: "kern_join_leave p sd cmd mcg w =
      (case sys_setsockopt p sd proto op arg of
         None \<Rightarrow>
           (0, w\<lparr>trace := trace w @ [Smclog LOG_DEBUG fmt args, Setsockopt sd proto op arg]\<rparr>)
       | Some e \<Rightarrow>
           (1, w\<lparr>errno := e,
                 trace := trace w @
                   [Smclog LOG_DEBUG fmt args, Setsockopt sd proto op arg,
                    Smclog LOG_ERR ''Failed %s group (%s,%s/%d) on sd %d ... %d: %s''
                      [S (if cmd = 0 \<or> cmd = chr_j then ''joining'' else ''leaving''),
                       S (if is_anyaddr (source mcg) then ''*''
                          else inet_addr2str p (source mcg)),
                       S (inet_addr2str p (group mcg)),
                       D (if len mcg = 0 then 32 else len mcg), D sd, D e,
                       S (strerror p e)]]\<rparr>))"
    and proto: "proto = (if HAVE_IPV6_MULTICAST_HOST p \<and> ss_family (group mcg) = AF_INET6
                  then IPPROTO_IPV6 else IPPROTO_IP)"
    and asm: "HAVE_STRUCT_GROUP_REQ p \<Longrightarrow> is_anyaddr (source mcg) \<Longrightarrow>
           op = (if cmd = 0 \<or> cmd = chr_j then MCAST_JOIN_GROUP else MCAST_LEAVE_GROUP) \<and>
           arg = Group_req (ifindex (iface mcg)) (group mcg)"
    and ssm: "HAVE_STRUCT_GROUP_REQ p \<Longrightarrow> \<not> is_anyaddr (source mcg) \<Longrightarrow>
           op = (if cmd = 0 \<or> cmd = chr_j then MCAST_JOIN_SOURCE_GROUP
                 else MCAST_LEAVE_SOURCE_GROUP) \<and>
           arg = Group_source_req (ifindex (iface mcg)) (source mcg) (group mcg)"
    and legacy6: "\<not> HAVE_STRUCT_GROUP_REQ p \<Longrightarrow> proto = IPPROTO_IPV6 \<Longrightarrow>
           op = (if cmd = 0 \<or> cmd = chr_j then IPV6_JOIN_GROUP else IPV6_LEAVE_GROUP) \<and>
           arg = Ipv6_mreq (inet_addr6_get (group mcg)) (ifindex (iface mcg))"
    and legacy4: "\<not> HAVE_STRUCT_GROUP_REQ p \<Longrightarrow> proto = IPPROTO_IP \<Longrightarrow>
           op = (if cmd = 0 \<or> cmd = chr_j then IP_ADD_MEMBERSHIP else IP_DROP_MEMBERSHIP) \<and>
           arg = (if HAVE_STRUCT_IP_MREQN p
                  then Ip_mreqn (inet_addr_get (group mcg)) (ifindex (iface mcg))
                  else Ip_mreq (inet_addr_get (group mcg)) (inaddr (iface mcg)))"
    by (rule kern_join_leave_run [of p sd cmd mcg w]) blast
  have calls: "kernel_calls (issued w (snd (kern_join_leave p sd cmd mcg w))) =
                 [Setsockopt sd proto op arg]"
    unfolding run by (simp add: obs_defs split: option.split)
  have "proto = IPPROTO_IPV6 \<or> proto = IPPROTO_IP"
    using proto by simp
  then have op: "op = (if cmd = 0 \<or> cmd = chr_j then MCAST_JOIN_GROUP else MCAST_LEAVE_GROUP)
      \<or> op = (if cmd = 0 \<or> cmd = chr_j then MCAST_JOIN_SOURCE_GROUP
               else MCAST_LEAVE_SOURCE_GROUP)
      \<or> op = (if cmd = 0 \<or> cmd = chr_j then IPV6_JOIN_GROUP else IPV6_LEAVE_GROUP)
      \<or> op = (if cmd = 0 \<or> cmd = chr_j then IP_ADD_MEMBERSHIP else IP_DROP_MEMBERSHIP)"
    using asm ssm legacy6 legacy4 by blast
  have "(op \<in> {MCAST_JOIN_GROUP, MCAST_JOIN_SOURCE_GROUP, IPV6_JOIN_GROUP, IP_ADD_MEMBERSHIP}
         \<longleftrightarrow> cmd = 0 \<or> cmd = chr_j) \<and>
      (op \<in> {MCAST_LEAVE_GROUP, MCAST_LEAVE_SOURCE_GROUP, IPV6_LEAVE_GROUP,
               IP_DROP_MEMBERSHIP}
         \<longleftrightarrow> cmd \<noteq> 0 \<and> cmd \<noteq> chr_j)"
    using op by (cases "cmd = 0 \<or> cmd = chr_j") auto
  with calls show "\<exists>proto op arg.
      kernel_calls (issued w (snd (kern_join_leave p sd cmd mcg w))) =
        [Setsockopt sd proto op arg] \<and>
      (op \<in> {MCAST_JOIN_GROUP, MCAST_JOIN_SOURCE_GROUP, IPV6_JOIN_GROUP, IP_ADD_MEMBERSHIP}
         \<longleftrightarrow> cmd = 0 \<or> cmd = chr_j) \<and>
      (op \<in> {MCAST_LEAVE_GROUP, MCAST_LEAVE_SOURCE_GROUP, IPV6_LEAVE_GROUP,
               IP_DROP_MEMBERSHIP}
         \<longleftrightarrow> cmd \<noteq> 0 \<and> cmd \<noteq> chr_j)"
    by blast
qed

text \<open>
  C9 at the command 0 with the RFC 3678 structures, and at the command \<^verbatim>\<open>'l'\<close> without.
\<close>

theorem kern_join_leave_command_dispatch_witness:
  "kernel_calls (issued world0 (snd (kern_join_leave rfc3678_build 3 0 ssm_request world0))) =
     [Setsockopt 3 IPPROTO_IP MCAST_JOIN_SOURCE_GROUP
        (Group_source_req 2 \<lparr>ss_family = AF_INET, ss_addr = 0x0A000001\<rparr>
           \<lparr>ss_family = AF_INET, ss_addr = 0xE1010203\<rparr>)] \<and>
   kernel_calls (issued world0 (snd (kern_join_leave legacy_build 3 108 ssm_request world0))) =
     [Setsockopt 3 IPPROTO_IP IP_DROP_MEMBERSHIP (Ip_mreqn 0xE1010203 2)]"
  using kern_join_leave_command_dispatch [of rfc3678_build 3 ssm_request world0 0]
  by (simp add: join_defs example_defs is_anyaddr_def inet_addr_get_def eff_defs obs_defs
        Let_def chr_j_106)

text \<open>
  C10. Whatever the command, ADD (\<^verbatim>\<open>'a'\<close>) included: when the kernel refuses the request
  of \<^verbatim>\<open>kern_mroute4\<close> or \<^verbatim>\<open>kern_mroute6\<close> with \<^verbatim>\<open>ENOENT\<close>, the one line logged is the
  debug line "failed removing ... does not exist" with the origin and the group. The line
  does not depend on the command, and it is not the line of an operational failure.
\<close>

theorem enoent_diagnosis_ignores_command:
  "(MAXVIFS p \<le> length (ttl route) \<longrightarrow>
      (\<exists>r w'. kern_mroute4 p sd cmd route active w = Inr (r, w') \<and>
         (kernel_errors p (issued w w') = [ENOENT] \<longrightarrow>
            log_lines (issued w w') =
              [Smclog LOG_DEBUG ''failed removing multicast route (%s,%s), does not exist.''
                 [S (inet_addr2str p (route_source route)),
                  S (inet_addr2str p (route_group route))]]))) \<and>
   (length (ttl route) \<le> IF_SETSIZE p \<longrightarrow>
      (\<exists>r w'. kern_mroute6 p sd cmd route w = Inr (r, w') \<and>
         (kernel_errors p (issued w w') = [ENOENT] \<longrightarrow>
            log_lines (issued w w') =
              [Smclog LOG_DEBUG
                 ''failed removing IPv6 multicast route (%s,%s), does not exist.''
                 [S (inet_addr2str p (route_source route)),
                  S (inet_addr2str p (route_group route))]])))"
proof (intro conjI impI)
  assume len: "MAXVIFS p \<le> length (ttl route)"
  show "\<exists>r w'. kern_mroute4 p sd cmd route active w = Inr (r, w') \<and>
         (kernel_errors p (issued w w') = [ENOENT] \<longrightarrow>
            log_lines (issued w w') =
              [Smclog LOG_DEBUG ''failed removing multicast route (%s,%s), does not exist.''
                 [S (inet_addr2str p (route_source route)),
                  S (inet_addr2str p (route_group route))]])"
  proof (cases "sd = - 1")
    case True
    then show ?thesis
      by (simp add: kern_mroute4_no_socket eff_defs obs_defs)
  next
    case False
    with len show ?thesis
      by (simp add: kern_mroute4_submit Let_def obs_defs split: option.split)
  qed
next
  assume len: "length (ttl route) \<le> IF_SETSIZE p"
  show "\<exists>r w'. kern_mroute6 p sd cmd route w = Inr (r, w') \<and>
         (kernel_errors p (issued w w') = [ENOENT] \<longrightarrow>
            log_lines (issued w w') =
              [Smclog LOG_DEBUG
                 ''failed removing IPv6 multicast route (%s,%s), does not exist.''
                 [S (inet_addr2str p (route_source route)),
                  S (inet_addr2str p (route_group route))]])"
  proof (cases "sd < 0")
    case True
    then show ?thesis
      by (simp add: kern_mroute6_no_socket eff_defs obs_defs)
  next
    case False
    with len show ?thesis
      by (simp add: kern_mroute6_submit Let_def obs_defs split: option.split)
  qed
qed

text \<open>
  C10 at an ADD refused with \<^verbatim>\<open>ENOENT\<close>, through both operations.
\<close>

theorem enoent_diagnosis_ignores_command_witness:
  "MAXVIFS (rfc3678_build\<lparr>sys_setsockopt := kernel_refuses ENOENT\<rparr>) \<le> length (ttl route_34) \<and>
   length (ttl route_34) \<le> IF_SETSIZE (rfc3678_build\<lparr>sys_setsockopt := kernel_refuses ENOENT\<rparr>) \<and>
   (\<exists>r w'. kern_mroute4 (rfc3678_build\<lparr>sys_setsockopt := kernel_refuses ENOENT\<rparr>) 5 chr_a
              route_34 1 world0 = Inr (r, w') \<and>
      kernel_errors (rfc3678_build\<lparr>sys_setsockopt := kernel_refuses ENOENT\<rparr>)
        (issued world0 w') = [ENOENT] \<and>
      log_lines (issued world0 w') =
        [Smclog LOG_DEBUG ''failed removing multicast route (%s,%s), does not exist.''
           [S ''ipv4'', S ''ipv4'']]) \<and>
   (\<exists>r w'. kern_mroute6 (rfc3678_build\<lparr>sys_setsockopt := kernel_refuses ENOENT\<rparr>) 5 chr_a
              route_34 world0 = Inr (r, w') \<and>
      kernel_errors (rfc3678_build\<lparr>sys_setsockopt := kernel_refuses ENOENT\<rparr>)
        (issued world0 w') = [ENOENT] \<and>
      log_lines (issued world0 w') =
        [Smclog LOG_DEBUG ''failed removing IPv6 multicast route (%s,%s), does not exist.''
           [S ''ipv4'', S ''ipv4'']])"
  using enoent_diagnosis_ignores_command
      [of "rfc3678_build\<lparr>sys_setsockopt := kernel_refuses ENOENT\<rparr>" route_34 5 chr_a 1 world0]
  by (simp add: kern_mroute4_submit kern_mroute6_submit example_defs obs_defs Let_def
        chr_a_97)

end
